theory Spec2Isabelle
  imports Complex_Main "HOL-Library.Multiset"
begin

section \<open>The benchmark harness of xiaozhi-server\<close>

text \<open>
  A shallow embedding of \<^verbatim>\<open>performance_tester_en.py\<close>,
  \<^verbatim>\<open>performance_tester_grid_search.py\<close> and \<^verbatim>\<open>test_function_calling.py\<close>.
  Python floats are modelled as reals: rounding is not part of the model. Strings are
  byte strings in UTF-8, so a substring test on them agrees with Python's test on code
  points. Every call into a provider, the file system or the clock is an input of the
  model.
\<close>

subsection \<open>Exceptions as values\<close>

text \<open>
  The subclasses of \<^verbatim>\<open>Exception\<close> that the harness meets: the ones its
  \<^verbatim>\<open>except Exception\<close> clauses catch. \<open>ProviderError\<close> stands for whatever such
  exception a provider, the network or the file system raises; the harness never
  inspects it. A call that may raise returns \<open>error + 'a\<close>, with \<open>Inl\<close> the
  exception. The exceptions outside \<^verbatim>\<open>Exception\<close> come with the run, below.
\<close>

datatype error = ZeroDivisionError | StatisticsError | ProviderError

definition py_div :: "real \<Rightarrow> real \<Rightarrow> error + real" where
  "py_div a b = (if b = 0 then Inl ZeroDivisionError else Inr (a / b))"

subsection \<open>The statistics module and the list built-ins\<close>

text \<open>
  \<^verbatim>\<open>statistics.mean\<close> raises on an empty sample, \<^verbatim>\<open>statistics.stdev\<close> on fewer
  than two points, \<^verbatim>\<open>min\<close> and \<^verbatim>\<open>max\<close> on an empty list. The functions below
  are what Python computes on the inputs where it does not raise; the callers below reach
  them only behind the guards of the source, or through \<open>py_mean\<close>, which raises.
\<close>

definition mean :: "real list \<Rightarrow> real" where
  "mean xs = sum_list xs / real (length xs)"

definition variance :: "real list \<Rightarrow> real" where
  "variance xs = (\<Sum>x\<leftarrow>xs. (x - mean xs)\<^sup>2) / real (length xs - 1)"

definition stdev :: "real list \<Rightarrow> real" where
  "stdev xs = sqrt (variance xs)"

fun minimum :: "real list \<Rightarrow> real" where
  "minimum [] = 0"
| "minimum (x # xs) = fold min xs x"

fun maximum :: "real list \<Rightarrow> real" where
  "maximum [] = 0"
| "maximum (x # xs) = fold max xs x"

definition py_mean :: "real list \<Rightarrow> error + real" where
  "py_mean xs = (if xs = [] then Inl StatisticsError else Inr (mean xs))"

text \<open>\<^verbatim>\<open>statistics.stdev(xs) if len(xs) > 1 else 0\<close>\<close>

definition stdev_or_0 :: "real list \<Rightarrow> real" where
  "stdev_or_0 xs = (if length xs > 1 then stdev xs else 0)"

subsection \<open>Probe results\<close>

text \<open>
  The result dictionaries. A failed probe returns \<^verbatim>\<open>{"name", "type", "errors": 1}\<close>
  only; every reader of a result tests \<^verbatim>\<open>errors == 0\<close> before any other key, so the
  remaining fields of a failed result are never read, and the model leaves them 0. The
  key \<^verbatim>\<open>type\<close> is the record type.
\<close>

record probe_result =
  name :: string
  errors :: nat

record llm_result = probe_result +
  avg_response_time :: real
  min_response_time :: real
  max_response_time :: real
  avg_first_token_time :: real
  min_first_token_time :: real
  max_first_token_time :: real
  std_first_token :: real
  std_response :: real
  avg_response_length :: real
  avg_tokens_per_second :: real
  success_rate :: real

record tts_result = probe_result +
  avg_synthesis_time :: real
  min_synthesis_time :: real
  max_synthesis_time :: real
  std_synthesis_time :: real
  tts_connection_time :: real
  avg_file_size :: real

record stt_result = probe_result +
  avg_processing_time :: real
  min_processing_time :: real
  max_processing_time :: real
  std_processing_time :: real
  stt_connection_time :: real
  stt_success_rate :: real

definition llm_error :: "string \<Rightarrow> llm_result" where
  "llm_error llm_name =
     \<lparr>name = llm_name, errors = 1,
      avg_response_time = 0, min_response_time = 0, max_response_time = 0,
      avg_first_token_time = 0, min_first_token_time = 0, max_first_token_time = 0,
      std_first_token = 0, std_response = 0, avg_response_length = 0,
      avg_tokens_per_second = 0, success_rate = 0\<rparr>"

definition tts_error :: "string \<Rightarrow> tts_result" where
  "tts_error tts_name =
     \<lparr>name = tts_name, errors = 1,
      avg_synthesis_time = 0, min_synthesis_time = 0, max_synthesis_time = 0,
      std_synthesis_time = 0, tts_connection_time = 0, avg_file_size = 0\<rparr>"

definition stt_error :: "string \<Rightarrow> stt_result" where
  "stt_error stt_name =
     \<lparr>name = stt_name, errors = 1,
      avg_processing_time = 0, min_processing_time = 0, max_processing_time = 0,
      std_processing_time = 0, stt_connection_time = 0, stt_success_rate = 0\<rparr>"

subsection \<open>One generation trial: \<^verbatim>\<open>_test_single_sentence\<close>\<close>

text \<open>
  What the timers of one trial record: the elapsed time at the first chunk that is not
  blank (if any), the elapsed time at the end of the stream, and the length of the
  concatenated chunks. A provider that raises makes the trial \<open>None\<close>.
\<close>

record measurement =
  first_token_elapsed :: "real option"
  response_elapsed :: real
  content_length :: nat

record trial =
  first_token_time :: real
  response_time :: real
  response_length :: nat
  tokens_per_second :: real

definition test_single_sentence :: "error + measurement \<Rightarrow> trial option" where
  "test_single_sentence a =
     (case a of
        Inl e \<Rightarrow> None
      | Inr m \<Rightarrow>
          Some \<lparr>first_token_time =
                  (case first_token_elapsed m of
                     None \<Rightarrow> response_elapsed m
                   | Some t \<Rightarrow> t),
                response_time = response_elapsed m,
                response_length = content_length m,
                tokens_per_second =
                  (if response_elapsed m > 0
                   then real (content_length m) / response_elapsed m else 0)\<rparr>)"

subsection \<open>Aggregation of the trials: \<^verbatim>\<open>_test_llm_performance\<close>, lines 265 to 301\<close>

definition valid_results :: "trial option list \<Rightarrow> trial list" where
  "valid_results sentence_results = map the (filter (\<lambda>r. r \<noteq> None) sentence_results)"

definition filtered_times :: "real list \<Rightarrow> real list" where
  "filtered_times response_times =
     (let mean_response = mean response_times;
          stdev_response = stdev_or_0 response_times
      in filter (\<lambda>t. t \<le> mean_response + 3 * stdev_response) response_times)"

text \<open>
  \<open>sentence_results\<close> is what \<^verbatim>\<open>asyncio.gather\<close> returns: one entry for each test
  sentence, in order, so its length is \<^verbatim>\<open>len(test_sentences)\<close>.
\<close>

definition aggregate_llm :: "string \<Rightarrow> trial option list \<Rightarrow> llm_result" where
  "aggregate_llm llm_name sentence_results =
     (let valid = valid_results sentence_results in
      if valid = [] then llm_error llm_name
      else
        let first_token_times = map first_token_time valid;
            response_times = map response_time valid;
            response_lengths = map (\<lambda>r. real (response_length r)) valid;
            tokens_per_seconds = map tokens_per_second valid
        in
          if real (length (filtered_times response_times))
               < real (length sentence_results) * 0.5
          then llm_error llm_name
          else
            \<lparr>name = llm_name, errors = 0,
             avg_response_time = mean response_times,
             min_response_time = minimum response_times,
             max_response_time = maximum response_times,
             avg_first_token_time = mean first_token_times,
             min_first_token_time = minimum first_token_times,
             max_first_token_time = maximum first_token_times,
             std_first_token = stdev_or_0 first_token_times,
             std_response = stdev_or_0 response_times,
             avg_response_length = mean response_lengths,
             avg_tokens_per_second = mean tokens_per_seconds,
             success_rate = real (length valid) / real (length sentence_results)\<rparr>)"

subsection \<open>Strings, configurations and placeholder credentials\<close>

text \<open>Python's \<^verbatim>\<open>s.startswith(p)\<close> and \<^verbatim>\<open>p in s\<close> on strings.\<close>

fun starts_with :: "string \<Rightarrow> string \<Rightarrow> bool" where
  "starts_with s [] = True"
| "starts_with [] (p # ps) = False"
| "starts_with (c # s) (p # ps) = (c = p \<and> starts_with s ps)"

fun contains :: "string \<Rightarrow> string \<Rightarrow> bool" where
  "contains [] p = (p = [])"
| "contains (c # s) p = (starts_with (c # s) p \<or> contains s p)"

text \<open>\<^verbatim>\<open>any(x in s for x in markers)\<close>\<close>

definition any_in :: "string list \<Rightarrow> string \<Rightarrow> bool" where
  "any_in markers s = list_ex (\<lambda>x. contains s x) markers"

text \<open>
  One backend's configuration: a dictionary from field names to strings. The Chinese
  marker of the source (two characters, "your") is written as its six UTF-8 bytes.
\<close>

type_synonym config = "string \<rightharpoonup> string"

definition your_zh :: string where
  "your_zh = [CHR 0xE4, CHR 0xBD, CHR 0xA0, CHR 0xE7, CHR 0x9A, CHR 0x84]"

definition token_fields :: "string list" where
  "token_fields = [''access_token'', ''api_key'', ''token'']"

text \<open>The test of \<^verbatim>\<open>run\<close>, \<^verbatim>\<open>_test_tts_performance\<close> and
  \<^verbatim>\<open>_test_stt_performance\<close> on the token fields.\<close>

definition token_not_configured :: "config \<Rightarrow> bool" where
  "token_not_configured config =
     list_ex (\<lambda>field. case config field of
                         None \<Rightarrow> False
                       | Some v \<Rightarrow> any_in [your_zh, ''placeholder'', ''your_''] v)
             token_fields"

text \<open>The test of \<^verbatim>\<open>run\<close> and \<^verbatim>\<open>_test_llm_performance\<close> on \<^verbatim>\<open>api_key\<close>.\<close>

definition api_key_not_configured :: "config \<Rightarrow> bool" where
  "api_key_not_configured config =
     (case config ''api_key'' of
        None \<Rightarrow> False
      | Some v \<Rightarrow> any_in [your_zh, ''placeholder'', ''your_'', ''sk-xxx''] v)"

text \<open>\<^verbatim>\<open>config.get(field, "")\<close>\<close>

definition get_or_empty :: "config \<Rightarrow> string \<Rightarrow> string" where
  "get_or_empty config field = (case config field of None \<Rightarrow> [] | Some v \<Rightarrow> v)"

text \<open>The test of \<^verbatim>\<open>run\<close> on the identifiers of \<^verbatim>\<open>CozeLLM\<close>.\<close>

definition coze_not_configured :: "config \<Rightarrow> bool" where
  "coze_not_configured config =
     (any_in [your_zh, ''your_''] (get_or_empty config ''bot_id'')
      \<or> any_in [your_zh, ''your_''] (get_or_empty config ''user_id''))"

subsection \<open>The response classifiers: \<^verbatim>\<open>_analyze_function_response\<close>\<close>

text \<open>
  \<^verbatim>\<open>str.lower\<close> follows the case mappings of the Unicode database, which are not
  part of the repository: it is a parameter \<open>str_lower\<close> of the classifiers, a function
  on strings. What is known of it is its value on ASCII text, where it lowers the letters
  A to Z and leaves every other character as it is.
\<close>

definition is_ascii :: "string \<Rightarrow> bool" where
  "is_ascii s = list_all (\<lambda>c. (of_char c :: nat) < 128) s"

definition ascii_lower_char :: "char \<Rightarrow> char" where
  "ascii_lower_char c =
     (let n = (of_char c :: nat) in if 65 \<le> n \<and> n \<le> 90 then char_of (n + 32) else c)"

definition ascii_lower :: "string \<Rightarrow> string" where
  "ascii_lower s = map ascii_lower_char s"

definition lowers_ascii :: "(string \<Rightarrow> string) \<Rightarrow> bool" where
  "lowers_ascii str_lower = (\<forall>s. is_ascii s \<longrightarrow> str_lower s = ascii_lower s)"

text \<open>
  \<^verbatim>\<open>for pattern in patterns: if pattern in response_lower: score += weight\<close>
\<close>

definition add_matches :: "int \<Rightarrow> string list \<Rightarrow> string \<Rightarrow> int \<Rightarrow> int" where
  "add_matches weight patterns response_lower score =
     fold (\<lambda>pattern score. if contains response_lower pattern then score + weight else score)
       patterns score"

paragraph \<open>The classifier of \<^verbatim>\<open>test_function_calling.py\<close>\<close>

record scenario =
  scenario_name :: string
  prompt :: string
  expected_function :: string
  description :: string

definition json_patterns :: "string list" where
  "json_patterns =
     [''get_weather'', ''play_music'', ''get_news'', ''home_control'',
      ''temperature_control'', ''get_time'', ''device_status'']"

definition function_keywords :: "string list" where
  "function_keywords =
     [''function'', ''call'', ''invoke'', ''execute'', ''api'',
      ''weather api'', ''music player'', ''news feed'', ''smart home'']"

definition structured_patterns :: "string list" where
  "structured_patterns = [''{'', ''}'', ''['', '']'', ''function_name'', ''parameters'']"

definition function_score :: "(string \<Rightarrow> string) \<Rightarrow> string \<Rightarrow> scenario \<Rightarrow> int" where
  "function_score str_lower response scenario =
     (let response_lower = str_lower response;
          score = 0;
          score = add_matches 3 json_patterns response_lower score;
          score = add_matches 2 function_keywords response_lower score;
          score = add_matches 1 structured_patterns response_lower score
      in if scenario_name scenario = ''Weather Query''
            \<and> any_in [''weather'', ''temperature'', ''forecast''] response_lower
         then score + 2
         else if scenario_name scenario = ''Music Playback''
            \<and> any_in [''music'', ''play'', ''song''] response_lower
         then score + 2
         else if scenario_name scenario = ''News Request''
            \<and> any_in [''news'', ''article'', ''update''] response_lower
         then score + 2
         else score)"

definition analyze_function_response ::
  "(string \<Rightarrow> string) \<Rightarrow> string \<Rightarrow> scenario \<Rightarrow> bool" where
  "analyze_function_response str_lower response scenario =
     (function_score str_lower response scenario \<ge> 3)"

paragraph \<open>The classifier of \<^verbatim>\<open>performance_tester_grid_search.py\<close>\<close>

record grid_scenario =
  grid_prompt :: string
  grid_expected_function :: string
  grid_function_keywords :: "string list"

definition grid_structured_patterns :: "string list" where
  "grid_structured_patterns = [''function'', ''call'', ''api'', ''tool'', ''action'']"

definition grid_function_score ::
  "(string \<Rightarrow> string) \<Rightarrow> string \<Rightarrow> grid_scenario \<Rightarrow> int" where
  "grid_function_score str_lower response scenario =
     (let response_lower = str_lower response;
          score = 0;
          score = add_matches 2 (grid_function_keywords scenario) response_lower score;
          score = add_matches 1 grid_structured_patterns response_lower score
      in score)"

definition grid_analyze_function_response ::
  "(string \<Rightarrow> string) \<Rightarrow> string \<Rightarrow> grid_scenario \<Rightarrow> bool" where
  "grid_analyze_function_response str_lower response scenario =
     (grid_function_score str_lower response scenario \<ge> 3)"

subsection \<open>The providers, as inputs\<close>

text \<open>
  What the outside world answers to one unit of work. For a generation backend: the
  Ollama service check, the construction of the client, and for each test sentence what
  the timers of the trial record, or the exception of the provider.
\<close>

record llm_world =
  ollama_service_ok :: bool
  llm_instance :: "error + unit"
  respond :: "string \<Rightarrow> error + measurement"

text \<open>
  For a synthesis backend: the construction of the client, then for the connection test
  and for each sentence the elapsed time and the size of the file written, \<open>None\<close>
  when no file exists afterwards.
\<close>

record tts_world =
  tts_instance :: "error + unit"
  tts_connection :: "error + real \<times> nat option"
  text_to_speak :: "string \<Rightarrow> error + real \<times> nat option"

text \<open>
  For a recognition backend: the construction of the client, then for the connection
  test and for each audio sample the elapsed time and the recognised text (\<open>None\<close>
  is Python's \<^verbatim>\<open>None\<close>).
\<close>

type_synonym audio = string

record stt_world =
  stt_instance :: "error + unit"
  stt_connection :: "error + real \<times> string option"
  speech_to_text :: "audio \<Rightarrow> error + real \<times> string option"

subsection \<open>The generation probe: \<^verbatim>\<open>_test_llm_performance\<close>\<close>

text \<open>
  The body of the \<^verbatim>\<open>try\<close> block; \<open>Inl\<close> is an exception raised inside it. The
  snapshot of the GPU memory is left out: it catches its own exceptions and no result
  depends on it.
\<close>

definition llm_probe :: "string list \<Rightarrow> string \<Rightarrow> config \<Rightarrow> llm_world \<Rightarrow> error + llm_result" where
  "llm_probe test_sentences llm_name config w =
     (if llm_name = ''OllamaLLM''
           \<and> (case config ''model_name'' of None \<Rightarrow> True | Some m \<Rightarrow> m = [])
      then Inr (llm_error llm_name)
      else if llm_name = ''OllamaLLM'' \<and> \<not> ollama_service_ok w
      then Inr (llm_error llm_name)
      else if llm_name \<noteq> ''OllamaLLM'' \<and> api_key_not_configured config
      then Inr (llm_error llm_name)
      else
        case llm_instance w of
          Inl e \<Rightarrow> Inl e
        | Inr llm \<Rightarrow>
            Inr (aggregate_llm llm_name
                   (map (\<lambda>sentence. test_single_sentence (respond w sentence))
                        test_sentences)))"

text \<open>The \<^verbatim>\<open>except Exception\<close> clause at the boundary of the unit.\<close>

definition test_llm_performance :: "string list \<Rightarrow> string \<Rightarrow> config \<Rightarrow> llm_world \<Rightarrow> llm_result" where
  "test_llm_performance test_sentences llm_name config w =
     (case llm_probe test_sentences llm_name config w of
        Inl e \<Rightarrow> llm_error llm_name
      | Inr result \<Rightarrow> result)"

subsection \<open>The synthesis probe: \<^verbatim>\<open>_test_tts_performance\<close>\<close>

text \<open>
  The loop over the first three sentences. \<open>Inr None\<close> is the early
  \<^verbatim>\<open>return {..., "errors": 1}\<close> of a sentence that left no file.
\<close>

fun synthesis_loop ::
  "(string \<Rightarrow> error + real \<times> nat option) \<Rightarrow> string list \<Rightarrow> real list \<Rightarrow> real list
     \<Rightarrow> error + (real list \<times> real list) option" where
  "synthesis_loop speak [] synthesis_times file_sizes = Inr (Some (synthesis_times, file_sizes))"
| "synthesis_loop speak (sentence # rest) synthesis_times file_sizes =
     (case speak sentence of
        Inl e \<Rightarrow> Inl e
      | Inr (synthesis_time, None) \<Rightarrow> Inr None
      | Inr (synthesis_time, Some file_size) \<Rightarrow>
          synthesis_loop speak rest (synthesis_times @ [synthesis_time])
            (file_sizes @ [real file_size]))"

definition tts_probe :: "string list \<Rightarrow> string \<Rightarrow> config \<Rightarrow> tts_world \<Rightarrow> error + tts_result" where
  "tts_probe test_sentences tts_name config w =
     (if token_not_configured config then Inr (tts_error tts_name)
      else
        case tts_instance w of
          Inl e \<Rightarrow> Inl e
        | Inr tts \<Rightarrow>
           (case tts_connection w of
              Inl e \<Rightarrow> Inl e
            | Inr (connection_time, None) \<Rightarrow> Inr (tts_error tts_name)
            | Inr (connection_time, Some file_size) \<Rightarrow>
               (case synthesis_loop (text_to_speak w) (take 3 test_sentences) [] [] of
                  Inl e \<Rightarrow> Inl e
                | Inr None \<Rightarrow> Inr (tts_error tts_name)
                | Inr (Some (synthesis_times, file_sizes)) \<Rightarrow>
                   (case py_mean synthesis_times of
                      Inl e \<Rightarrow> Inl e
                    | Inr avg \<Rightarrow>
                        Inr \<lparr>name = tts_name, errors = 0,
                             avg_synthesis_time = avg,
                             min_synthesis_time = minimum synthesis_times,
                             max_synthesis_time = maximum synthesis_times,
                             std_synthesis_time = stdev_or_0 synthesis_times,
                             tts_connection_time = connection_time,
                             avg_file_size =
                               (if file_sizes \<noteq> [] then mean file_sizes else 0)\<rparr>))))"

definition test_tts_performance :: "string list \<Rightarrow> string \<Rightarrow> config \<Rightarrow> tts_world \<Rightarrow> tts_result" where
  "test_tts_performance test_sentences tts_name config w =
     (case tts_probe test_sentences tts_name config w of
        Inl e \<Rightarrow> tts_error tts_name
      | Inr result \<Rightarrow> result)"

subsection \<open>The recognition probe: \<^verbatim>\<open>_test_stt_performance\<close>\<close>

text \<open>
  The loop over the audio samples. A text that is \<^verbatim>\<open>None\<close> or empty is falsy and
  ends the probe with an error result (\<open>Inr None\<close>). The list of recognition results
  is kept as its length, the only thing read from it.
\<close>

fun recognition_loop ::
  "(audio \<Rightarrow> error + real \<times> string option) \<Rightarrow> audio list \<Rightarrow> real list \<Rightarrow> nat
     \<Rightarrow> error + (real list \<times> nat) option" where
  "recognition_loop recognise [] processing_times recognised =
     Inr (Some (processing_times, recognised))"
| "recognition_loop recognise (audio_data # rest) processing_times recognised =
     (case recognise audio_data of
        Inl e \<Rightarrow> Inl e
      | Inr (processing_time, None) \<Rightarrow> Inr None
      | Inr (processing_time, Some txt) \<Rightarrow>
          (if txt = [] then Inr None
           else recognition_loop recognise rest (processing_times @ [processing_time])
                  (Suc recognised)))"

definition stt_probe :: "audio list \<Rightarrow> string \<Rightarrow> config \<Rightarrow> stt_world \<Rightarrow> error + stt_result" where
  "stt_probe test_wav_list stt_name config w =
     (if token_not_configured config then Inr (stt_error stt_name)
      else
        case stt_instance w of
          Inl e \<Rightarrow> Inl e
        | Inr stt \<Rightarrow>
           (if test_wav_list = [] then Inr (stt_error stt_name)
            else
              case stt_connection w of
                Inl e \<Rightarrow> Inl e
              | Inr (connection_time, None) \<Rightarrow> Inr (stt_error stt_name)
              | Inr (connection_time, Some txt) \<Rightarrow>
                 (case recognition_loop (speech_to_text w) test_wav_list [] 0 of
                    Inl e \<Rightarrow> Inl e
                  | Inr None \<Rightarrow> Inr (stt_error stt_name)
                  | Inr (Some (processing_times, recognised)) \<Rightarrow>
                      Inr \<lparr>name = stt_name, errors = 0,
                           avg_processing_time = mean processing_times,
                           min_processing_time = minimum processing_times,
                           max_processing_time = maximum processing_times,
                           std_processing_time = stdev_or_0 processing_times,
                           stt_connection_time = connection_time,
                           stt_success_rate =
                             real recognised / real (length test_wav_list)\<rparr>)))"

definition test_stt_performance :: "audio list \<Rightarrow> string \<Rightarrow> config \<Rightarrow> stt_world \<Rightarrow> stt_result" where
  "test_stt_performance test_wav_list stt_name config w =
     (case stt_probe test_wav_list stt_name config w of
        Inl e \<Rightarrow> stt_error stt_name
      | Inr result \<Rightarrow> result)"

subsection \<open>The state of the tester\<close>

text \<open>
  \<^verbatim>\<open>self.results\<close>: three dictionaries from backend names to results, in insertion
  order, and the list of combinations.
\<close>

record details =
  llm_first_token :: real
  llm_stability :: real
  tts_time :: real
  stt_time :: real

record combination =
  llm :: string
  tts :: string
  stt :: string
  score :: real
  details :: details

record results =
  results_llm :: "(string \<times> llm_result) list"
  results_tts :: "(string \<times> tts_result) list"
  results_stt :: "(string \<times> stt_result) list"
  combinations :: "combination list"

definition initial_results :: results where
  "initial_results =
     \<lparr>results_llm = [], results_tts = [], results_stt = [], combinations = []\<rparr>"

text \<open>
  \<^verbatim>\<open>d[k] = v\<close> on a dictionary in insertion order: a known key keeps its place, a
  new one goes last. \<^verbatim>\<open>d[k]\<close> is read only at keys taken from \<open>d\<close> itself.
\<close>

fun dict_set :: "(string \<times> 'v) list \<Rightarrow> string \<Rightarrow> 'v \<Rightarrow> (string \<times> 'v) list" where
  "dict_set [] k v = [(k, v)]"
| "dict_set ((k', v') # d) k v =
     (if k' = k then (k, v) # d else (k', v') # dict_set d k v)"

definition dict_get :: "(string \<times> 'v) list \<Rightarrow> string \<Rightarrow> 'v" where
  "dict_get d k = the (map_of d k)"

text \<open>
  The sections \<^verbatim>\<open>LLM\<close>, \<^verbatim>\<open>TTS\<close> and \<^verbatim>\<open>ASR\<close> of the configuration, each absent
  or a dictionary from backend names to configurations.
\<close>

record app_config =
  LLM :: "(string \<times> config) list option"
  TTS :: "(string \<times> config) list option"
  ASR :: "(string \<times> config) list option"

record tester =
  self_config :: app_config
  self_test_sentences :: "string list"
  self_test_wav_list :: "audio list"
  self_results :: results

subsection \<open>The ranking: \<^verbatim>\<open>_generate_combinations\<close>\<close>

definition valid_llms :: "results \<Rightarrow> string list" where
  "valid_llms r =
     map fst (filter (\<lambda>(k, v). errors v = 0 \<and> avg_first_token_time v \<ge> 0.05)
                (results_llm r))"

definition valid_tts :: "results \<Rightarrow> string list" where
  "valid_tts r = map fst (filter (\<lambda>(k, v). errors v = 0) (results_tts r))"

definition valid_stt :: "results \<Rightarrow> string list" where
  "valid_stt r = map fst (filter (\<lambda>(k, v). errors v = 0) (results_stt r))"

definition min_first_token :: "results \<Rightarrow> real" where
  "min_first_token r =
     (if valid_llms r \<noteq> []
      then minimum (map (\<lambda>k. avg_first_token_time (dict_get (results_llm r) k)) (valid_llms r))
      else 1)"

definition min_tts_time :: "results \<Rightarrow> real" where
  "min_tts_time r =
     (if valid_tts r \<noteq> []
      then minimum (map (\<lambda>k. avg_synthesis_time (dict_get (results_tts r) k)) (valid_tts r))
      else 1)"

definition min_stt_time :: "results \<Rightarrow> real" where
  "min_stt_time r =
     (if valid_stt r \<noteq> []
      then minimum (map (\<lambda>k. avg_processing_time (dict_get (results_stt r) k)) (valid_stt r))
      else 1)"

text \<open>The body of the innermost loop, for one triple of names.\<close>

definition combine :: "results \<Rightarrow> string \<times> string \<times> string \<Rightarrow> error + combination" where
  "combine r = (\<lambda>(l, t, s).
     case py_div (avg_first_token_time (dict_get (results_llm r) l)) (min_first_token r) of
       Inl e \<Rightarrow> Inl e
     | Inr llm_score \<Rightarrow>
     (case py_div (avg_synthesis_time (dict_get (results_tts r) t)) (min_tts_time r) of
       Inl e \<Rightarrow> Inl e
     | Inr tts_score \<Rightarrow>
     (case py_div (avg_processing_time (dict_get (results_stt r) s)) (min_stt_time r) of
       Inl e \<Rightarrow> Inl e
     | Inr stt_score \<Rightarrow>
     (case py_div (std_first_token (dict_get (results_llm r) l))
                  (avg_first_token_time (dict_get (results_llm r) l)) of
       Inl e \<Rightarrow> Inl e
     | Inr stability \<Rightarrow>
         (let llm_final_score = llm_score * 0.7 + stability * 0.3;
              total_score = llm_final_score * 0.7 + tts_score * 0.3 + stt_score * 0.3
          in Inr \<lparr>llm = l, tts = t, stt = s, score = total_score,
                  details =
                    \<lparr>llm_first_token = avg_first_token_time (dict_get (results_llm r) l),
                     llm_stability = stability,
                     tts_time = avg_synthesis_time (dict_get (results_tts r) t),
                     stt_time = avg_processing_time (dict_get (results_stt r) s)\<rparr>\<rparr>)))))"

text \<open>A loop whose body may raise: the first exception ends it.\<close>

fun for_each :: "('a \<Rightarrow> error + 'b) \<Rightarrow> 'a list \<Rightarrow> error + 'b list" where
  "for_each f [] = Inr []"
| "for_each f (x # xs) =
     (case f x of
        Inl e \<Rightarrow> Inl e
      | Inr y \<Rightarrow> (case for_each f xs of Inl e \<Rightarrow> Inl e | Inr ys \<Rightarrow> Inr (y # ys)))"

text \<open>The three nested iterations visit the triples in this order.\<close>

definition triples :: "results \<Rightarrow> (string \<times> string \<times> string) list" where
  "triples r =
     concat (map (\<lambda>l. concat (map (\<lambda>t. map (\<lambda>s. (l, t, s)) (valid_stt r)) (valid_tts r)))
               (valid_llms r))"

definition new_combinations :: "results \<Rightarrow> error + combination list" where
  "new_combinations r = for_each (combine r) (triples r)"

text \<open>
  The new combinations are appended to the list and the list is sorted by score;
  \<^verbatim>\<open>list.sort\<close> is stable, as \<open>sort_key\<close> is. An exception leaves the method.
\<close>

definition generate_combinations :: "results \<Rightarrow> error + results" where
  "generate_combinations r =
     (case new_combinations r of
        Inl e \<Rightarrow> Inl e
      | Inr new \<Rightarrow> Inr (r\<lparr>combinations := sort_key score (combinations r @ new)\<rparr>))"

subsection \<open>The run: \<^verbatim>\<open>run\<close> and \<^verbatim>\<open>run_with_timeout\<close>\<close>

datatype task = LlmTask string config | TtsTask string config | SttTask string config

definition llm_tasks :: "app_config \<Rightarrow> task list" where
  "llm_tasks c =
     (case LLM c of
        None \<Rightarrow> []
      | Some section \<Rightarrow>
          map (\<lambda>(llm_name, config). LlmTask llm_name config)
            (filter (\<lambda>(llm_name, config).
                       \<not> (if llm_name = ''CozeLLM'' then coze_not_configured config
                          else api_key_not_configured config))
               section))"

definition tts_tasks :: "app_config \<Rightarrow> task list" where
  "tts_tasks c =
     (case TTS c of
        None \<Rightarrow> []
      | Some section \<Rightarrow>
          map (\<lambda>(tts_name, config). TtsTask tts_name config)
            (filter (\<lambda>(tts_name, config). \<not> token_not_configured config) section))"

definition stt_tasks :: "app_config \<Rightarrow> audio list \<Rightarrow> task list" where
  "stt_tasks c test_wav_list =
     (if length test_wav_list \<ge> 1
      then (case ASR c of
              None \<Rightarrow> []
            | Some section \<Rightarrow>
                map (\<lambda>(stt_name, config). SttTask stt_name config)
                  (filter (\<lambda>(stt_name, config). \<not> token_not_configured config) section))
      else [])"

definition all_tasks :: "tester \<Rightarrow> task list" where
  "all_tasks t =
     llm_tasks (self_config t) @ tts_tasks (self_config t)
       @ stt_tasks (self_config t) (self_test_wav_list t)"

text \<open>
  Exceptions that are not subclasses of \<^verbatim>\<open>Exception\<close>: no \<^verbatim>\<open>except Exception\<close>
  clause of the harness catches them (\<^verbatim>\<open>asyncio.CancelledError\<close> is one of them since
  Python 3.8). A unit of work can meet one at any point of its probe; then no handler
  inside the unit runs and the exception leaves the unit.
\<close>

datatype interruption = CancelledError | GeneratorExit | KeyboardInterrupt | SystemExit

text \<open>
  The outside world of a run: what each backend answers, by name, the time after which
  each unit of work finishes, and the interruption that a unit meets, if any.
\<close>

record world =
  llm_world_of :: "string \<Rightarrow> llm_world"
  tts_world_of :: "string \<Rightarrow> tts_world"
  stt_world_of :: "string \<Rightarrow> stt_world"
  finished_after :: "task \<Rightarrow> real"
  interrupted :: "task \<Rightarrow> interruption option"

text \<open>
  What one unit leaves behind: its result dictionary, or the exception that left it.
  \<open>unit_result\<close> is the coroutine of the unit when nothing interrupts it.
\<close>

datatype outcome =
  LlmOutcome llm_result | TtsOutcome tts_result | SttOutcome stt_result
  | ExceptionOutcome interruption

fun unit_result :: "tester \<Rightarrow> world \<Rightarrow> task \<Rightarrow> outcome" where
  "unit_result t w (LlmTask llm_name config) =
     LlmOutcome (test_llm_performance (self_test_sentences t) llm_name config
                   (llm_world_of w llm_name))"
| "unit_result t w (TtsTask tts_name config) =
     TtsOutcome (test_tts_performance (self_test_sentences t) tts_name config
                   (tts_world_of w tts_name))"
| "unit_result t w (SttTask stt_name config) =
     SttOutcome (test_stt_performance (self_test_wav_list t) stt_name config
                   (stt_world_of w stt_name))"

definition execute :: "tester \<Rightarrow> world \<Rightarrow> task \<Rightarrow> outcome" where
  "execute t w task =
     (case interrupted w task of
        Some b \<Rightarrow> ExceptionOutcome b
      | None \<Rightarrow> unit_result t w task)"

text \<open>The loop over the gathered results: only a dictionary with no error is stored.\<close>

fun store :: "results \<Rightarrow> outcome \<Rightarrow> results" where
  "store r (LlmOutcome result) =
     (if errors result = 0
      then r\<lparr>results_llm := dict_set (results_llm r) (name result) result\<rparr> else r)"
| "store r (TtsOutcome result) =
     (if errors result = 0
      then r\<lparr>results_tts := dict_set (results_tts r) (name result) result\<rparr> else r)"
| "store r (SttOutcome result) =
     (if errors result = 0
      then r\<lparr>results_stt := dict_set (results_stt r) (name result) result\<rparr> else r)"
| "store r (ExceptionOutcome b) = r"

definition process_results :: "results \<Rightarrow> outcome list \<Rightarrow> results" where
  "process_results r all_results = foldl store r all_results"

text \<open>
  \<^verbatim>\<open>asyncio.gather(*all_tasks, return_exceptions=True)\<close>. A
  \<^verbatim>\<open>KeyboardInterrupt\<close> or \<^verbatim>\<open>SystemExit\<close> that leaves a task is raised again by
  the step of the task and leaves the event loop: the gathering never returns and the
  exception ends the run, at the time the first such unit finishes (the first in the
  order of the tasks when several finish together). Otherwise every unit runs and the
  outcomes come back in the order of the tasks; any other exception that left a unit,
  such as the \<^verbatim>\<open>CancelledError\<close> of a cancelled unit, is one of them.
\<close>

fun stops_loop :: "outcome \<Rightarrow> interruption option" where
  "stops_loop (ExceptionOutcome KeyboardInterrupt) = Some KeyboardInterrupt"
| "stops_loop (ExceptionOutcome SystemExit) = Some SystemExit"
| "stops_loop (ExceptionOutcome CancelledError) = None"
| "stops_loop (ExceptionOutcome GeneratorExit) = None"
| "stops_loop (LlmOutcome result) = None"
| "stops_loop (TtsOutcome result) = None"
| "stops_loop (SttOutcome result) = None"

fun first_stop :: "tester \<Rightarrow> world \<Rightarrow> task list \<Rightarrow> (real \<times> interruption) option" where
  "first_stop t w [] = None"
| "first_stop t w (task # tasks) =
     (case stops_loop (execute t w task) of
        None \<Rightarrow> first_stop t w tasks
      | Some b \<Rightarrow>
          (case first_stop t w tasks of
             None \<Rightarrow> Some (finished_after w task, b)
           | Some (s, b') \<Rightarrow>
               if finished_after w task \<le> s then Some (finished_after w task, b)
               else Some (s, b')))"

definition gather :: "tester \<Rightarrow> world \<Rightarrow> task list \<Rightarrow> interruption + outcome list" where
  "gather t w tasks =
     (case first_stop t w tasks of
        Some (s, b) \<Rightarrow> Inl b
      | None \<Rightarrow> Inr (map (execute t w) tasks))"

text \<open>
  What leaves \<^verbatim>\<open>run\<close>: an exception of the harness itself, or the interruption that
  stopped the event loop.
\<close>

datatype raised = Exception error | Interruption interruption

definition run :: "tester \<Rightarrow> world \<Rightarrow> raised + results" where
  "run t w =
     (case gather t w (all_tasks t) of
        Inl b \<Rightarrow> Inl (Interruption b)
      | Inr all_results \<Rightarrow>
          (case generate_combinations (process_results (self_results t) all_results) of
             Inl e \<Rightarrow> Inl (Exception e)
           | Inr r \<Rightarrow> Inr r))"

text \<open>
  \<^verbatim>\<open>asyncio.gather\<close> returns when its last unit has finished, and \<^verbatim>\<open>run\<close> ends
  then, unless an interruption has ended it before. A run that has not ended when the
  timer of \<^verbatim>\<open>asyncio.wait_for\<close> fires, also one that would end at that very instant,
  is cancelled inside the \<^verbatim>\<open>gather\<close>, before the loop that stores the results, and
  the handler of the timeout reports from \<^verbatim>\<open>self.results\<close> as it is.
\<close>

definition gather_finished_after :: "world \<Rightarrow> task list \<Rightarrow> real" where
  "gather_finished_after w tasks = fold max (map (finished_after w) tasks) 0"

definition run_finished_after :: "tester \<Rightarrow> world \<Rightarrow> real" where
  "run_finished_after t w =
     (case first_stop t w (all_tasks t) of
        Some (s, b) \<Rightarrow> s
      | None \<Rightarrow> gather_finished_after w (all_tasks t))"

definition timeout_report :: "tester \<Rightarrow> raised + results" where
  "timeout_report t =
     (case generate_combinations (self_results t) of
        Inl e \<Rightarrow> Inl (Exception e)
      | Inr r \<Rightarrow> Inr r)"

definition run_with_timeout :: "tester \<Rightarrow> world \<Rightarrow> real \<Rightarrow> raised + results" where
  "run_with_timeout t w timeout_seconds =
     (if run_finished_after t w < timeout_seconds
      then run t w
      else timeout_report t)"

section \<open>Notions of the specification and concrete inputs\<close>

text \<open>
  The definitions of this section are not part of the program: they are the inputs on
  which the theorems below evaluate it, and the notions in which the specification
  states its properties.
\<close>

text \<open>Eleven trials of one backend: ten take one second, the last takes twelve.\<close>

definition steady_trial :: trial where
  "steady_trial =
     \<lparr>first_token_time = 1/2, response_time = 1, response_length = 10,
      tokens_per_second = 10\<rparr>"

definition slow_trial :: trial where
  "slow_trial =
     \<lparr>first_token_time = 1/2, response_time = 12, response_length = 12,
      tokens_per_second = 1\<rparr>"

definition eleven_trials :: "trial option list" where
  "eleven_trials =
     [Some steady_trial, Some steady_trial, Some steady_trial, Some steady_trial,
      Some steady_trial, Some steady_trial, Some steady_trial, Some steady_trial,
      Some steady_trial, Some steady_trial, Some slow_trial]"

text \<open>Five test sentences of which one trial succeeded.\<close>

definition one_of_five :: "trial option list" where
  "one_of_five = [Some steady_trial, None, None, None, None]"

text \<open>Two trials of ten characters each, after one and after four seconds.\<close>

definition two_measurements :: "(error + measurement) list" where
  "two_measurements =
     [Inr \<lparr>first_token_elapsed = None, response_elapsed = 1, content_length = 10\<rparr>,
      Inr \<lparr>first_token_elapsed = None, response_elapsed = 4, content_length = 10\<rparr>]"

text \<open>The measurements of the trials that did not raise.\<close>

definition completed :: "(error + measurement) list \<Rightarrow> measurement list" where
  "completed as = map projr (filter (\<lambda>a. \<not> isl a) as)"

text \<open>
  The reply of the spec's example, the weather scenario of
  \<^verbatim>\<open>test_function_calling.py\<close> and the weather scenario of
  \<^verbatim>\<open>performance_tester_grid_search.py\<close>, with its keywords.
\<close>

definition weather_response :: string where
  "weather_response = ''The weather today is sunny with temperature around 20 degrees.''"

definition weather_query :: scenario where
  "weather_query =
     \<lparr>scenario_name = ''Weather Query'',
      prompt = ''What'' @ [CHR 0x27] @ ''s the weather like in New York today?'',
      expected_function = ''get_weather'',
      description = ''Should call weather API function''\<rparr>"

definition grid_weather :: grid_scenario where
  "grid_weather =
     \<lparr>grid_prompt = ''What'' @ [CHR 0x27] @ ''s the weather like in San Francisco?'',
      grid_expected_function = ''get_weather'',
      grid_function_keywords = [''weather'', ''temperature'', ''forecast'']\<rparr>"

text \<open>
  The scores in closed form: the number of patterns of a list found in the lower-cased
  reply, and the bonus of a scenario of \<^verbatim>\<open>test_function_calling.py\<close>. The reply
  of the example is ASCII text.
\<close>

definition matches :: "(string \<Rightarrow> string) \<Rightarrow> string list \<Rightarrow> string \<Rightarrow> int" where
  "matches str_lower patterns response =
     int (length (filter (\<lambda>pattern. contains (str_lower response) pattern) patterns))"

definition bonus_words :: "string \<Rightarrow> string list" where
  "bonus_words title =
     (if title = ''Weather Query'' then [''weather'', ''temperature'', ''forecast'']
      else if title = ''Music Playback'' then [''music'', ''play'', ''song'']
      else if title = ''News Request'' then [''news'', ''article'', ''update'']
      else [])"

definition bonus :: "(string \<Rightarrow> string) \<Rightarrow> string \<Rightarrow> scenario \<Rightarrow> int" where
  "bonus str_lower response scenario =
     (if any_in (bonus_words (scenario_name scenario)) (str_lower response) then 2 else 0)"

text \<open>
  The score of a combination in the words of the specification: the eligible results
  of each kind, the least average time among them, and the weighted sum.
\<close>

definition eligible_llm :: "llm_result \<Rightarrow> bool" where
  "eligible_llm v = (errors v = 0 \<and> avg_first_token_time v \<ge> 0.05)"

definition least :: "real list \<Rightarrow> real" where
  "least xs = Min (set xs)"

definition spec_total_score ::
  "results \<Rightarrow> llm_result \<Rightarrow> tts_result \<Rightarrow> stt_result \<Rightarrow> real" where
  "spec_total_score r lv tv sv =
     (let llm_score =
            avg_first_token_time lv
              / least (map (\<lambda>(k, v). avg_first_token_time v)
                         (filter (\<lambda>(k, v). eligible_llm v) (results_llm r)));
          llm_stability = std_first_token lv / avg_first_token_time lv;
          tts_score =
            avg_synthesis_time tv
              / least (map (\<lambda>(k, v). avg_synthesis_time v)
                         (filter (\<lambda>(k, v). errors v = 0) (results_tts r)));
          stt_score =
            avg_processing_time sv
              / least (map (\<lambda>(k, v). avg_processing_time v)
                         (filter (\<lambda>(k, v). errors v = 0) (results_stt r)));
          llm_final = 0.7 * llm_score + 0.3 * llm_stability
      in 0.7 * llm_final + 0.3 * tts_score + 0.3 * stt_score)"

text \<open>
  Results of a run: three generation backends, A (first token after 0.5 s, deviation 0.05),
  B (1.0 s, deviation 0.5) and F (0.01 s), one synthesis and one recognition backend.
\<close>

definition llm_stats :: "string \<Rightarrow> real \<Rightarrow> real \<Rightarrow> llm_result" where
  "llm_stats llm_name avg std =
     \<lparr>name = llm_name, errors = 0,
      avg_response_time = 2, min_response_time = 2, max_response_time = 2,
      avg_first_token_time = avg, min_first_token_time = avg, max_first_token_time = avg,
      std_first_token = std, std_response = 0, avg_response_length = 100,
      avg_tokens_per_second = 50, success_rate = 1\<rparr>"

definition tts_stats :: "string \<Rightarrow> real \<Rightarrow> tts_result" where
  "tts_stats tts_name avg =
     \<lparr>name = tts_name, errors = 0,
      avg_synthesis_time = avg, min_synthesis_time = avg, max_synthesis_time = avg,
      std_synthesis_time = 0, tts_connection_time = 1, avg_file_size = 1000\<rparr>"

definition stt_stats :: "string \<Rightarrow> real \<Rightarrow> stt_result" where
  "stt_stats stt_name avg =
     \<lparr>name = stt_name, errors = 0,
      avg_processing_time = avg, min_processing_time = avg, max_processing_time = avg,
      std_processing_time = 0, stt_connection_time = 1, stt_success_rate = 1\<rparr>"

definition example_results :: results where
  "example_results =
     \<lparr>results_llm =
        [(''B'', llm_stats ''B'' 1 (1/2)), (''F'', llm_stats ''F'' (1/100) 0),
         (''A'', llm_stats ''A'' (1/2) (1/20))],
      results_tts = [(''T'', tts_stats ''T'' 2)],
      results_stt = [(''S'', stt_stats ''S'' 3)],
      combinations = []\<rparr>"

definition ranked :: "string \<Rightarrow> real \<Rightarrow> real \<Rightarrow> real \<Rightarrow> combination" where
  "ranked l sc first_token stability =
     \<lparr>llm = l, tts = ''T'', stt = ''S'', score = sc,
      details = \<lparr>llm_first_token = first_token, llm_stability = stability,
                 tts_time = 2, stt_time = 3\<rparr>\<rparr>"

definition example_ranked :: results where
  "example_ranked =
     example_results
       \<lparr>combinations :=
          [ranked ''A'' (1111/1000) (1/2) (1/10), ranked ''B'' (1685/1000) 1 (1/2)]\<rparr>"

text \<open>
  The same results with the generation backends inserted in another order.
\<close>

definition example_permuted :: results where
  "example_permuted =
     example_results
       \<lparr>results_llm :=
          [(''A'', llm_stats ''A'' (1/2) (1/20)), (''B'', llm_stats ''B'' 1 (1/2)),
           (''F'', llm_stats ''F'' (1/100) 0)]\<rparr>"

text \<open>
  Two synthesis backends with the same average time, inserted in either order.
\<close>

definition tie_results :: "(string \<times> tts_result) list \<Rightarrow> results" where
  "tie_results synthesis =
     \<lparr>results_llm = [(''A'', llm_stats ''A'' (1/2) (1/20))],
      results_tts = synthesis,
      results_stt = [(''S'', stt_stats ''S'' 3)],
      combinations = []\<rparr>"

definition tie_first :: results where
  "tie_first = tie_results [(''T1'', tts_stats ''T1'' 2), (''T2'', tts_stats ''T2'' 2)]"

definition tie_second :: results where
  "tie_second = tie_results [(''T2'', tts_stats ''T2'' 2), (''T1'', tts_stats ''T1'' 2)]"

definition tied :: "string \<Rightarrow> combination" where
  "tied t =
     \<lparr>llm = ''A'', tts = t, stt = ''S'', score = 1111/1000,
      details = \<lparr>llm_first_token = 1/2, llm_stability = 1/10,
                 tts_time = 2, stt_time = 3\<rparr>\<rparr>"

text \<open>
  A unit of work fails with a subclass of \<^verbatim>\<open>Exception\<close> when no interruption meets
  it and the body of its probe raises; the error count of an outcome is that of its
  dictionary.
\<close>

fun body_raises :: "tester \<Rightarrow> world \<Rightarrow> task \<Rightarrow> bool" where
  "body_raises t w (LlmTask llm_name config) =
     isl (llm_probe (self_test_sentences t) llm_name config (llm_world_of w llm_name))"
| "body_raises t w (TtsTask tts_name config) =
     isl (tts_probe (self_test_sentences t) tts_name config (tts_world_of w tts_name))"
| "body_raises t w (SttTask stt_name config) =
     isl (stt_probe (self_test_wav_list t) stt_name config (stt_world_of w stt_name))"

definition probe_raises :: "tester \<Rightarrow> world \<Rightarrow> task \<Rightarrow> bool" where
  "probe_raises t w task = (interrupted w task = None \<and> body_raises t w task)"

fun error_count :: "outcome \<Rightarrow> nat option" where
  "error_count (LlmOutcome result) = Some (errors result)"
| "error_count (TtsOutcome result) = Some (errors result)"
| "error_count (SttOutcome result) = Some (errors result)"
| "error_count (ExceptionOutcome b) = None"

text \<open>
  A run of three synthesis backends under a budget: each answers every request in one
  second with a file of 100 bytes; the units finish after 1, 1 and 5 seconds.
\<close>

definition no_credentials :: config where
  "no_credentials = Map.empty"

definition budget_tester :: tester where
  "budget_tester =
     \<lparr>self_config =
        \<lparr>LLM = None,
         TTS = Some [(''T1'', no_credentials), (''T2'', no_credentials),
                     (''T3'', no_credentials)],
         ASR = None\<rparr>,
      self_test_sentences = [''Hello, please introduce yourself''],
      self_test_wav_list = [],
      self_results = initial_results\<rparr>"

definition steady_tts :: tts_world where
  "steady_tts =
     \<lparr>tts_instance = Inr (),
      tts_connection = Inr (1, Some 100),
      text_to_speak = (\<lambda>sentence. Inr (1, Some 100))\<rparr>"

definition failing_tts :: tts_world where
  "failing_tts =
     \<lparr>tts_instance = Inr (),
      tts_connection = Inl ProviderError,
      text_to_speak = (\<lambda>sentence. Inr (1, Some 100))\<rparr>"

definition silent_llm :: llm_world where
  "silent_llm =
     \<lparr>ollama_service_ok = False,
      llm_instance = Inl ProviderError,
      respond = (\<lambda>sentence. Inl ProviderError)\<rparr>"

definition silent_stt :: stt_world where
  "silent_stt =
     \<lparr>stt_instance = Inl ProviderError,
      stt_connection = Inl ProviderError,
      speech_to_text = (\<lambda>audio_data. Inl ProviderError)\<rparr>"

definition budget_world :: world where
  "budget_world =
     \<lparr>llm_world_of = (\<lambda>llm_name. silent_llm),
      tts_world_of = (\<lambda>tts_name. steady_tts),
      stt_world_of = (\<lambda>stt_name. silent_stt),
      finished_after =
        (\<lambda>task. case task of
                  TtsTask tts_name config \<Rightarrow> if tts_name = ''T3'' then 5 else 1
                | _ \<Rightarrow> 1),
      interrupted = (\<lambda>task. None)\<rparr>"

text \<open>The same run when the client of T2 raises in its connection test.\<close>

definition crash_world :: world where
  "crash_world =
     budget_world
       \<lparr>tts_world_of := (\<lambda>tts_name. if tts_name = ''T2'' then failing_tts else steady_tts)\<rparr>"

text \<open>
  The same run when T2 meets an interruption: a \<^verbatim>\<open>KeyboardInterrupt\<close>, or a
  \<^verbatim>\<open>CancelledError\<close>.
\<close>

definition interrupt_world :: "interruption \<Rightarrow> world" where
  "interrupt_world b =
     budget_world
       \<lparr>interrupted :=
          (\<lambda>task. case task of
                    TtsTask tts_name config \<Rightarrow> if tts_name = ''T2'' then Some b else None
                  | _ \<Rightarrow> None)\<rparr>"

definition steady_result :: "string \<Rightarrow> tts_result" where
  "steady_result tts_name =
     \<lparr>name = tts_name, errors = 0,
      avg_synthesis_time = 1, min_synthesis_time = 1, max_synthesis_time = 1,
      std_synthesis_time = 0, tts_connection_time = 1, avg_file_size = 100\<rparr>"

text \<open>
  The three kinds of backend: for each, its section of the configuration, the
  credential test that \<^verbatim>\<open>run\<close> applies to an entry of the section, its unit of work
  and the names in its result dictionary.
\<close>

datatype kind = Generation | Synthesis | Recognition

fun section_of :: "kind \<Rightarrow> app_config \<Rightarrow> (string \<times> config) list option" where
  "section_of Generation c = LLM c"
| "section_of Synthesis c = TTS c"
| "section_of Recognition c = ASR c"

fun disqualified :: "kind \<Rightarrow> string \<Rightarrow> config \<Rightarrow> bool" where
  "disqualified Generation backend config =
     (if backend = ''CozeLLM'' then coze_not_configured config
      else api_key_not_configured config)"
| "disqualified Synthesis backend config = token_not_configured config"
| "disqualified Recognition backend config = token_not_configured config"

fun task_of :: "kind \<Rightarrow> string \<Rightarrow> config \<Rightarrow> task" where
  "task_of Generation backend config = LlmTask backend config"
| "task_of Synthesis backend config = TtsTask backend config"
| "task_of Recognition backend config = SttTask backend config"

fun result_names :: "kind \<Rightarrow> results \<Rightarrow> string list" where
  "result_names Generation r = map fst (results_llm r)"
| "result_names Synthesis r = map fst (results_tts r)"
| "result_names Recognition r = map fst (results_stt r)"

text \<open>
  A configuration with placeholders: a generation backend with a placeholder in
  \<^verbatim>\<open>access_token\<close>, a \<^verbatim>\<open>CozeLLM\<close> with a placeholder in \<^verbatim>\<open>api_key\<close>, a
  synthesis backend that needs no credentials and one with a placeholder token.
\<close>

definition token_placeholder :: config where
  "token_placeholder = [''access_token'' \<mapsto> ''your_access_token'']"

definition coze_key_placeholder :: config where
  "coze_key_placeholder =
     [''api_key'' \<mapsto> ''your_api_key'', ''bot_id'' \<mapsto> ''7342880'',
      ''user_id'' \<mapsto> ''u1'']"

definition placeholder_tester :: tester where
  "placeholder_tester =
     \<lparr>self_config =
        \<lparr>LLM = Some [(''ChatGLMLLM'', token_placeholder),
                     (''CozeLLM'', coze_key_placeholder)],
         TTS = Some [(''EdgeTTS'', no_credentials), (''DoubaoTTS'', token_placeholder)],
         ASR = None\<rparr>,
      self_test_sentences = [''Hello, please introduce yourself''],
      self_test_wav_list = [],
      self_results = initial_results\<rparr>"

text \<open>
  The names of a combination, and the combinations of a list that have a given score,
  in the order of the list.
\<close>

definition names :: "combination \<Rightarrow> string \<times> string \<times> string" where
  "names c = (llm c, tts c, stt c)"

definition tied_with :: "real \<Rightarrow> combination list \<Rightarrow> combination list" where
  "tied_with k cs = filter (\<lambda>c. score c = k) cs"

section \<open>The statistical aggregator\<close>

lemma errors_llm_error: "errors (llm_error n) = 1"
  by (simp add: llm_error_def)

lemma valid_results_length: "length (valid_results rs) \<le> length rs"
  by (simp add: valid_results_def)

lemma aggregate_llm_avg_tokens:
  "errors (aggregate_llm n rs) = 0 \<Longrightarrow>
   avg_tokens_per_second (aggregate_llm n rs) = mean (map tokens_per_second (valid_results rs))"
  by (simp add: aggregate_llm_def Let_def llm_error_def split: if_splits)

subsection \<open>An outlier stays in the reported statistics\<close>

lemma eleven_times:
  "map response_time (valid_results eleven_trials) = [1,1,1,1,1,1,1,1,1,1,12]"
  by (simp add: eleven_trials_def valid_results_def steady_trial_def slow_trial_def)

lemma mean_eleven: "mean [1,1,1,1,1,1,1,1,1,1,12] = 2"
  by (simp add: mean_def)

lemma variance_eleven: "variance [1,1,1,1,1,1,1,1,1,1,12] = 11"
  by (simp add: variance_def mean_eleven)

lemma three_sqrt_eleven: "3 * sqrt 11 < (10::real)"
proof -
  have "sqrt 11 < sqrt ((10/3)\<^sup>2)"
    by (subst real_sqrt_less_iff) (simp add: power2_eq_square)
  then show ?thesis by simp
qed

lemma filtered_eleven: "filtered_times [1,1,1,1,1,1,1,1,1,1,12] = [1,1,1,1,1,1,1,1,1,1]"
  using three_sqrt_eleven
  by (simp add: filtered_times_def stdev_or_0_def stdev_def mean_eleven variance_eleven)

text \<open>
  C1. The claim: a trial whose latency exceeds mean + 3 stdev of the response times is
  excluded from the reported statistics. On eleven trials, ten of one second and one of
  twelve, the filter of the source keeps the ten and drops the twelve; the result is
  error-free all the same, and its average (2) and maximum (12) of the response time
  are those of all eleven trials, where the filtered trials have average 1 and
  maximum 1.
\<close>

theorem outlier_trial_is_reported:
  "filtered_times (map response_time (valid_results eleven_trials)) = [1,1,1,1,1,1,1,1,1,1]
   \<and> errors (aggregate_llm n eleven_trials) = 0
   \<and> avg_response_time (aggregate_llm n eleven_trials) = 2
   \<and> max_response_time (aggregate_llm n eleven_trials) = 12
   \<and> mean (filtered_times (map response_time (valid_results eleven_trials))) = 1
   \<and> maximum (filtered_times (map response_time (valid_results eleven_trials))) = 1"
proof -
  have v: "valid_results eleven_trials \<noteq> []"
    by (simp add: eleven_trials_def valid_results_def)
  have l: "length eleven_trials = 11"
    by (simp add: eleven_trials_def)
  have a: "aggregate_llm n eleven_trials =
     \<lparr>name = n, errors = 0,
      avg_response_time = mean (map response_time (valid_results eleven_trials)),
      min_response_time = minimum (map response_time (valid_results eleven_trials)),
      max_response_time = maximum (map response_time (valid_results eleven_trials)),
      avg_first_token_time = mean (map first_token_time (valid_results eleven_trials)),
      min_first_token_time = minimum (map first_token_time (valid_results eleven_trials)),
      max_first_token_time = maximum (map first_token_time (valid_results eleven_trials)),
      std_first_token = stdev_or_0 (map first_token_time (valid_results eleven_trials)),
      std_response = stdev_or_0 (map response_time (valid_results eleven_trials)),
      avg_response_length =
        mean (map (\<lambda>r. real (response_length r)) (valid_results eleven_trials)),
      avg_tokens_per_second = mean (map tokens_per_second (valid_results eleven_trials)),
      success_rate = real (length (valid_results eleven_trials)) / real (length eleven_trials)\<rparr>"
    unfolding aggregate_llm_def Let_def using v by (simp add: eleven_times filtered_eleven l)
  show ?thesis
    unfolding a by (simp add: eleven_times filtered_eleven mean_eleven) (simp add: mean_def)
qed

subsection \<open>Too few survivors\<close>

text \<open>
  C6. When fewer than half of the trials of a backend (one for each test sentence)
  survive the outlier filter, the result of the backend is the error result, with
  error count 1, whatever the statistics of the survivors.
\<close>

theorem few_survivors_is_error:
  "2 * length (filtered_times (map response_time (valid_results rs))) < length rs
   \<Longrightarrow> aggregate_llm n rs = llm_error n \<and> errors (aggregate_llm n rs) = 1"
  by (auto simp: aggregate_llm_def Let_def llm_error_def)

theorem few_survivors_is_error_witness:
  "2 * length (filtered_times (map response_time (valid_results one_of_five)))
     < length one_of_five
   \<and> aggregate_llm ''llm'' one_of_five = llm_error ''llm''
   \<and> errors (aggregate_llm ''llm'' one_of_five) = 1"
proof -
  have "map response_time (valid_results one_of_five) = [1]"
    by (simp add: one_of_five_def valid_results_def steady_trial_def)
  then have h: "2 * length (filtered_times (map response_time (valid_results one_of_five)))
      < length one_of_five"
    by (simp add: filtered_times_def stdev_or_0_def mean_def one_of_five_def)
  show ?thesis
    using h few_survivors_is_error [OF h, of "''llm''"] by (simp add: errors_llm_error)
qed

subsection \<open>Throughput\<close>

lemma valid_results_trials:
  "map tokens_per_second (valid_results (map test_single_sentence as)) =
   map (\<lambda>m. if response_elapsed m > 0 then real (content_length m) / response_elapsed m else 0)
     (completed as)"
  unfolding valid_results_def completed_def
  by (induction as) (auto simp: test_single_sentence_def split: sum.splits)

lemma completed_set:
  assumes "m \<in> set (completed as)"
  shows "Inr m \<in> set as"
proof -
  from assms obtain a where "a \<in> set as" "\<not> isl a" "m = projr a"
    by (auto simp: completed_def)
  then show ?thesis by (cases a) auto
qed

text \<open>
  C7. For an error-free result whose trials have positive latencies, the reported
  \<open>avg_tokens_per_second\<close> is the mean over the trials of length / latency of the trial.
  The witness is a pair of trials on which this mean (25/4) is not the ratio of the sums
  (4).
\<close>

theorem tokens_per_second_averaged_per_trial:
  assumes "errors (aggregate_llm n (map test_single_sentence as)) = 0"
    and "\<forall>m. Inr m \<in> set as \<longrightarrow> 0 < response_elapsed m"
  shows "avg_tokens_per_second (aggregate_llm n (map test_single_sentence as)) =
         mean (map (\<lambda>m. real (content_length m) / response_elapsed m) (completed as))"
proof -
  have eq: "map (\<lambda>m. if response_elapsed m > 0
                     then real (content_length m) / response_elapsed m else 0)
              (completed as)
            = map (\<lambda>m. real (content_length m) / response_elapsed m) (completed as)"
    using assms(2) by (auto dest: completed_set)
  show ?thesis
    unfolding aggregate_llm_avg_tokens [OF assms(1)] valid_results_trials eq ..
qed

lemma two_times:
  "map response_time (valid_results (map test_single_sentence two_measurements)) = [1, 4]"
  by (simp add: two_measurements_def valid_results_def test_single_sentence_def)

lemma filtered_two: "filtered_times [1, 4] = [1, 4]"
proof -
  have m: "mean [1, 4] = 5/2" by (simp add: mean_def)
  have v: "variance [1, 4] = 9/2" by (simp add: variance_def m power2_eq_square)
  have "(1/2)\<^sup>2 \<le> (9/2::real)" by (simp add: power2_eq_square)
  then have "1/2 \<le> sqrt (9/2::real)" by (rule real_le_rsqrt)
  then show ?thesis
    by (simp add: filtered_times_def stdev_or_0_def stdev_def m v)
qed

lemma two_ok: "errors (aggregate_llm n (map test_single_sentence two_measurements)) = 0"
proof -
  have "valid_results (map test_single_sentence two_measurements) \<noteq> []"
    by (simp add: two_measurements_def valid_results_def test_single_sentence_def)
  moreover have "length (map test_single_sentence two_measurements) = 2"
    by (simp add: two_measurements_def)
  ultimately show ?thesis
    unfolding aggregate_llm_def Let_def two_times filtered_two by simp
qed

theorem tokens_per_second_averaged_per_trial_witness:
  "avg_tokens_per_second (aggregate_llm ''llm'' (map test_single_sentence two_measurements))
     = 25 / 4
   \<and> real (sum_list (map content_length (completed two_measurements)))
       / sum_list (map response_elapsed (completed two_measurements)) = 4"
proof -
  have p: "\<forall>m. Inr m \<in> set two_measurements \<longrightarrow> 0 < response_elapsed m"
    by (auto simp: two_measurements_def)
  have c: "completed two_measurements =
    [\<lparr>first_token_elapsed = None, response_elapsed = 1, content_length = 10\<rparr>,
     \<lparr>first_token_elapsed = None, response_elapsed = 4, content_length = 10\<rparr>]"
    by (simp add: completed_def two_measurements_def)
  show ?thesis
    using tokens_per_second_averaged_per_trial [OF two_ok p]
    by (simp add: c mean_def)
qed

section \<open>The response classifiers\<close>

lemma add_matches_count:
  "add_matches w ps l s = s + w * int (length (filter (\<lambda>p. contains l p) ps))"
  unfolding add_matches_def
  by (induction ps arbitrary: s) (simp_all add: algebra_simps)

lemma function_score_closed:
  "function_score str_lower response sc =
     3 * matches str_lower json_patterns response
       + 2 * matches str_lower function_keywords response
       + matches str_lower structured_patterns response + bonus str_lower response sc"
  unfolding function_score_def Let_def add_matches_count matches_def bonus_def bonus_words_def
  by (simp add: any_in_def)

lemma grid_function_score_closed:
  "grid_function_score str_lower response sc =
     2 * matches str_lower (grid_function_keywords sc) response
       + matches str_lower grid_structured_patterns response"
  unfolding grid_function_score_def Let_def add_matches_count matches_def
  by simp

lemma lowers_ascii_ascii_lower: "lowers_ascii ascii_lower"
  by (simp add: lowers_ascii_def)

lemma is_ascii_weather: "is_ascii weather_response"
  unfolding weather_response_def is_ascii_def by code_simp

lemma ascii_lower_weather:
  "ascii_lower weather_response
     = ''the weather today is sunny with temperature around 20 degrees.''"
  unfolding weather_response_def ascii_lower_def ascii_lower_char_def by code_simp

lemma lower_weather:
  assumes "lowers_ascii str_lower"
  shows "str_lower weather_response
     = ''the weather today is sunny with temperature around 20 degrees.''"
  using assms is_ascii_weather ascii_lower_weather by (simp add: lowers_ascii_def)

lemma matches_json_weather:
  "lowers_ascii str_lower \<Longrightarrow> matches str_lower json_patterns weather_response = 0"
  unfolding matches_def by (simp add: lower_weather json_patterns_def)

lemma matches_keywords_weather:
  "lowers_ascii str_lower \<Longrightarrow> matches str_lower function_keywords weather_response = 0"
  unfolding matches_def by (simp add: lower_weather function_keywords_def)

lemma matches_structured_weather:
  "lowers_ascii str_lower \<Longrightarrow> matches str_lower structured_patterns weather_response = 0"
  unfolding matches_def by (simp add: lower_weather structured_patterns_def)

lemma bonus_weather:
  "lowers_ascii str_lower \<Longrightarrow> bonus str_lower weather_response weather_query = 2"
  unfolding bonus_def
  by (simp add: lower_weather weather_query_def bonus_words_def any_in_def)

lemma matches_grid_keywords_weather:
  "lowers_ascii str_lower \<Longrightarrow>
   matches str_lower (grid_function_keywords grid_weather) weather_response = 2"
  unfolding matches_def by (simp add: lower_weather grid_weather_def)

lemma matches_grid_structured_weather:
  "lowers_ascii str_lower \<Longrightarrow>
   matches str_lower grid_structured_patterns weather_response = 0"
  unfolding matches_def by (simp add: lower_weather grid_structured_patterns_def)

lemma function_score_weather:
  "lowers_ascii str_lower \<Longrightarrow> function_score str_lower weather_response weather_query = 2"
  unfolding function_score_closed
  by (simp add: matches_json_weather matches_keywords_weather matches_structured_weather
      bonus_weather)

text \<open>
  C5, the claim as stated fails: the classifier of \<^verbatim>\<open>test_function_calling.py\<close>
  gives the reply of the example, in its weather scenario, the score 2 (the bonus
  alone), and does not detect an intent, whatever \<^verbatim>\<open>str.lower\<close> does outside ASCII.
\<close>

theorem weather_reply_not_detected:
  "function_score ascii_lower weather_response weather_query = 2
   \<and> \<not> analyze_function_response ascii_lower weather_response weather_query
   \<and> \<not> (\<exists>str_lower. lowers_ascii str_lower
            \<and> analyze_function_response str_lower weather_response weather_query)"
  unfolding analyze_function_response_def
  using function_score_weather [OF lowers_ascii_ascii_lower]
  by (auto simp: function_score_weather)

text \<open>
  C5, as amended. Each classifier answers true exactly when its score is at least 3,
  the score counting the patterns found in the reply as \<^verbatim>\<open>str.lower\<close> returns it.
  In \<^verbatim>\<open>test_function_calling.py\<close> every function name found adds 3, every function
  keyword (among them function, call and api) adds 2, every structural marker adds 1 and
  the vocabulary of the scenario adds 2 once. In
  \<^verbatim>\<open>performance_tester_grid_search.py\<close> every keyword of the scenario found adds 2
  and every one of function, call, api, tool, action adds 1; there the reply of the
  example, with the keywords weather, temperature and forecast, scores 4 and is detected.
\<close>

theorem classifier_scores:
  "(analyze_function_response str_lower response sc \<longleftrightarrow>
      3 * matches str_lower json_patterns response
        + 2 * matches str_lower function_keywords response
        + matches str_lower structured_patterns response + bonus str_lower response sc \<ge> 3)
   \<and> (grid_analyze_function_response str_lower response gsc \<longleftrightarrow>
      2 * matches str_lower (grid_function_keywords gsc) response
        + matches str_lower grid_structured_patterns response \<ge> 3)
   \<and> (lowers_ascii str_lower \<longrightarrow>
        grid_function_score str_lower weather_response grid_weather = 4
        \<and> grid_analyze_function_response str_lower weather_response grid_weather)"
  unfolding analyze_function_response_def grid_analyze_function_response_def
    function_score_closed grid_function_score_closed
  by (simp add: matches_grid_keywords_weather matches_grid_structured_weather)

theorem classifier_scores_witness:
  "lowers_ascii ascii_lower
   \<and> grid_function_score ascii_lower weather_response grid_weather = 4
   \<and> grid_analyze_function_response ascii_lower weather_response grid_weather
   \<and> analyze_function_response ascii_lower ''{get_weather}'' weather_query
   \<and> \<not> grid_analyze_function_response ascii_lower ''{get_weather}'' grid_weather"
proof -
  have l: "ascii_lower ''{get_weather}'' = ''{get_weather}''"
    unfolding ascii_lower_def ascii_lower_char_def by code_simp
  have 1: "matches ascii_lower json_patterns ''{get_weather}'' = 1"
    unfolding matches_def l by (simp add: json_patterns_def)
  have 2: "matches ascii_lower function_keywords ''{get_weather}'' = 0"
    unfolding matches_def l by (simp add: function_keywords_def)
  have 3: "matches ascii_lower structured_patterns ''{get_weather}'' = 2"
    unfolding matches_def l by (simp add: structured_patterns_def)
  have 4: "bonus ascii_lower ''{get_weather}'' weather_query = 2"
    unfolding bonus_def l by (simp add: weather_query_def bonus_words_def any_in_def)
  have 5: "matches ascii_lower (grid_function_keywords grid_weather) ''{get_weather}'' = 1"
    unfolding matches_def l by (simp add: grid_weather_def)
  have 6: "matches ascii_lower grid_structured_patterns ''{get_weather}'' = 0"
    unfolding matches_def l by (simp add: grid_structured_patterns_def)
  show ?thesis
    using classifier_scores [of ascii_lower "''{get_weather}''" weather_query grid_weather]
      lowers_ascii_ascii_lower
    by (simp add: 1 2 3 4 5 6)
qed

section \<open>The combination scorer\<close>

lemma minimum_Min:
  assumes "xs \<noteq> []"
  shows "minimum xs = Min (set xs)"
proof -
  from assms obtain y ys where "xs = y # ys" by (cases xs) auto
  then show ?thesis by (simp only: minimum.simps Min.set_eq_fold)
qed

lemma dict_get_distinct:
  "distinct (map fst d) \<Longrightarrow> (k, v) \<in> set d \<Longrightarrow> dict_get d k = v"
  by (simp add: dict_get_def)

lemma minimum_over_keys:
  assumes "distinct (map fst d)" and "filter (\<lambda>(k, v). P v) d \<noteq> []"
  shows "minimum (map (\<lambda>k. f (dict_get d k)) (map fst (filter (\<lambda>(k, v). P v) d)))
         = least (map (\<lambda>(k, v). f v) (filter (\<lambda>(k, v). P v) d))"
proof -
  have eq: "map (\<lambda>k. f (dict_get d k)) (map fst (filter (\<lambda>(k, v). P v) d))
        = map (\<lambda>(k, v). f v) (filter (\<lambda>(k, v). P v) d)"
    using assms(1) by (auto simp: dict_get_distinct)
  show ?thesis
    unfolding eq using assms(2) by (simp add: minimum_Min least_def)
qed

lemma for_each_all_Inr:
  "(\<forall>x\<in>set xs. \<exists>y. f x = Inr y) \<Longrightarrow> for_each f xs = Inr (map (\<lambda>x. projr (f x)) xs)"
  by (induction xs) auto

lemma for_each_Inr:
  "for_each f xs = Inr ys \<Longrightarrow>
     (\<forall>x\<in>set xs. \<exists>y. f x = Inr y) \<and> ys = map (\<lambda>x. projr (f x)) xs"
  by (induction xs arbitrary: ys) (auto split: sum.splits)

lemma for_each_Inl:
  "for_each f xs = Inl e \<Longrightarrow> \<exists>x\<in>set xs. f x = Inl e"
  by (induction xs) (auto split: sum.splits)

lemma set_triples:
  "set (triples r) = {(l, t, s). l \<in> set (valid_llms r) \<and> t \<in> set (valid_tts r) \<and> s \<in> set (valid_stt r)}"
  by (auto simp: triples_def)

lemma valid_llms_iff:
  "l \<in> set (valid_llms r) \<longleftrightarrow> (\<exists>v. (l, v) \<in> set (results_llm r) \<and> eligible_llm v)"
  by (auto simp: valid_llms_def eligible_llm_def image_iff)

lemma valid_tts_iff:
  "t \<in> set (valid_tts r) \<longleftrightarrow> (\<exists>v. (t, v) \<in> set (results_tts r) \<and> errors v = 0)"
  by (auto simp: valid_tts_def image_iff)

lemma valid_stt_iff:
  "s \<in> set (valid_stt r) \<longleftrightarrow> (\<exists>v. (s, v) \<in> set (results_stt r) \<and> errors v = 0)"
  by (auto simp: valid_stt_def image_iff)

lemma combine_Inr:
  assumes "combine r (l, t, s) = Inr c"
  shows "llm c = l \<and> tts c = t \<and> stt c = s
    \<and> score c =
        (avg_first_token_time (dict_get (results_llm r) l) / min_first_token r * 0.7
          + std_first_token (dict_get (results_llm r) l)
              / avg_first_token_time (dict_get (results_llm r) l) * 0.3) * 0.7
        + avg_synthesis_time (dict_get (results_tts r) t) / min_tts_time r * 0.3
        + avg_processing_time (dict_get (results_stt r) s) / min_stt_time r * 0.3"
  using assms
  by (auto simp: combine_def py_div_def Let_def split: if_splits)


lemma min_first_token_least:
  assumes "distinct (map fst (results_llm r))" and "valid_llms r \<noteq> []"
  shows "min_first_token r =
         least (map (\<lambda>(k, v). avg_first_token_time v)
                  (filter (\<lambda>(k, v). eligible_llm v) (results_llm r)))"
  using assms
    minimum_over_keys [of "results_llm r" eligible_llm avg_first_token_time]
  by (simp add: min_first_token_def valid_llms_def eligible_llm_def)

lemma min_tts_time_least:
  assumes "distinct (map fst (results_tts r))" and "valid_tts r \<noteq> []"
  shows "min_tts_time r =
         least (map (\<lambda>(k, v). avg_synthesis_time v)
                  (filter (\<lambda>(k, v). errors v = 0) (results_tts r)))"
  using assms
    minimum_over_keys [of "results_tts r" "\<lambda>v. errors v = 0" avg_synthesis_time]
  by (simp add: min_tts_time_def valid_tts_def)

lemma min_stt_time_least:
  assumes "distinct (map fst (results_stt r))" and "valid_stt r \<noteq> []"
  shows "min_stt_time r =
         least (map (\<lambda>(k, v). avg_processing_time v)
                  (filter (\<lambda>(k, v). errors v = 0) (results_stt r)))"
  using assms
    minimum_over_keys [of "results_stt r" "\<lambda>v. errors v = 0" avg_processing_time]
  by (simp add: min_stt_time_def valid_stt_def)

lemma combine_score_spec:
  assumes d: "distinct (map fst (results_llm r))" "distinct (map fst (results_tts r))"
      "distinct (map fst (results_stt r))"
    and l: "(l, lv) \<in> set (results_llm r)" "eligible_llm lv"
    and t: "(t, tv) \<in> set (results_tts r)" "errors tv = 0"
    and s: "(s, sv) \<in> set (results_stt r)" "errors sv = 0"
    and c: "combine r (l, t, s) = Inr c"
  shows "score c = spec_total_score r lv tv sv"
proof -
  have "valid_llms r \<noteq> []" "valid_tts r \<noteq> []" "valid_stt r \<noteq> []"
    using l t s valid_llms_iff [of l r] valid_tts_iff [of t r] valid_stt_iff [of s r]
    by auto
  then have m: "min_first_token r =
         least (map (\<lambda>(k, v). avg_first_token_time v)
                  (filter (\<lambda>(k, v). eligible_llm v) (results_llm r)))"
      "min_tts_time r =
         least (map (\<lambda>(k, v). avg_synthesis_time v)
                  (filter (\<lambda>(k, v). errors v = 0) (results_tts r)))"
      "min_stt_time r =
         least (map (\<lambda>(k, v). avg_processing_time v)
                  (filter (\<lambda>(k, v). errors v = 0) (results_stt r)))"
    using d by (simp_all add: min_first_token_least min_tts_time_least min_stt_time_least)
  have g: "dict_get (results_llm r) l = lv" "dict_get (results_tts r) t = tv"
      "dict_get (results_stt r) s = sv"
    using d l t s by (simp_all add: dict_get_distinct)
  show ?thesis
    using combine_Inr [OF c] unfolding g m spec_total_score_def Let_def
    by (simp add: algebra_simps)
qed

lemma generate_combinations_Inr:
  assumes "generate_combinations r = Inr r'"
  shows "\<exists>new. new_combinations r = Inr new
           \<and> combinations r' = sort_key score (combinations r @ new)"
  using assms by (auto simp: generate_combinations_def split: sum.splits)

text \<open>
  C3. When \<^verbatim>\<open>_generate_combinations\<close> returns, the list of combinations is sorted
  ascending by score; every triple of an eligible generation result, an error-free
  synthesis result and an error-free recognition result has a combination whose score
  is 0.7 (0.7 llm_score + 0.3 llm_stability) + 0.3 tts_score + 0.3 stt_score, each
  score relative to the least average time among the eligible results of its kind; and
  every combination that was not in the list before is one of these.
\<close>

theorem combinations_scored_and_sorted:
  assumes d: "distinct (map fst (results_llm r))" "distinct (map fst (results_tts r))"
      "distinct (map fst (results_stt r))"
    and g: "generate_combinations r = Inr r'"
  shows "sorted (map score (combinations r'))
    \<and> (\<forall>(l, lv)\<in>set (results_llm r). \<forall>(t, tv)\<in>set (results_tts r).
          \<forall>(s, sv)\<in>set (results_stt r).
            eligible_llm lv \<and> errors tv = 0 \<and> errors sv = 0 \<longrightarrow>
            (\<exists>c\<in>set (combinations r').
                llm c = l \<and> tts c = t \<and> stt c = s
                \<and> score c = spec_total_score r lv tv sv))
    \<and> (\<forall>c\<in>set (combinations r').
          c \<in> set (combinations r)
          \<or> (\<exists>lv tv sv.
                (llm c, lv) \<in> set (results_llm r) \<and> eligible_llm lv
                \<and> (tts c, tv) \<in> set (results_tts r) \<and> errors tv = 0
                \<and> (stt c, sv) \<in> set (results_stt r) \<and> errors sv = 0
                \<and> score c = spec_total_score r lv tv sv))"
proof -
  from generate_combinations_Inr [OF g] obtain new where
    n: "new_combinations r = Inr new"
    and c: "combinations r' = sort_key score (combinations r @ new)"
    by blast
  from n have ok: "\<forall>x\<in>set (triples r). \<exists>y. combine r x = Inr y"
    and new: "new = map (\<lambda>x. projr (combine r x)) (triples r)"
    using for_each_Inr [of "combine r" "triples r" new] by (simp_all add: new_combinations_def)
  have 1: "sorted (map score (combinations r'))"
    by (simp add: c)
  have 2: "\<exists>c\<in>set (combinations r').
                llm c = l \<and> tts c = t \<and> stt c = s \<and> score c = spec_total_score r lv tv sv"
    if "(l, lv) \<in> set (results_llm r)" "(t, tv) \<in> set (results_tts r)"
       "(s, sv) \<in> set (results_stt r)" "eligible_llm lv" "errors tv = 0" "errors sv = 0"
    for l lv t tv s sv
  proof -
    have "(l, t, s) \<in> set (triples r)"
      using that by (auto simp: set_triples valid_llms_iff valid_tts_iff valid_stt_iff)
    moreover from this ok obtain y where y: "combine r (l, t, s) = Inr y" by blast
    ultimately have "y \<in> set new"
      unfolding new by (force simp: image_iff)
    then have "y \<in> set (combinations r')" by (simp add: c)
    moreover have "score y = spec_total_score r lv tv sv"
      using combine_score_spec [OF d that(1,4) that(2,5) that(3,6) y] .
    ultimately show ?thesis using combine_Inr [OF y] by blast
  qed
  have 3: "c' \<in> set (combinations r)
          \<or> (\<exists>lv tv sv.
                (llm c', lv) \<in> set (results_llm r) \<and> eligible_llm lv
                \<and> (tts c', tv) \<in> set (results_tts r) \<and> errors tv = 0
                \<and> (stt c', sv) \<in> set (results_stt r) \<and> errors sv = 0
                \<and> score c' = spec_total_score r lv tv sv)"
    if "c' \<in> set (combinations r')" for c'
  proof (cases "c' \<in> set (combinations r)")
    case True
    then show ?thesis by simp
  next
    case False
    with that have "c' \<in> set new" by (simp add: c)
    then obtain l t s where x: "(l, t, s) \<in> set (triples r)"
      and y: "c' = projr (combine r (l, t, s))"
      unfolding new by auto
    from x ok obtain y' where y': "combine r (l, t, s) = Inr y'" by blast
    with y have cy: "combine r (l, t, s) = Inr c'" by simp
    from x obtain lv tv sv where
      v: "(l, lv) \<in> set (results_llm r)" "eligible_llm lv"
         "(t, tv) \<in> set (results_tts r)" "errors tv = 0"
         "(s, sv) \<in> set (results_stt r)" "errors sv = 0"
      by (auto simp: set_triples valid_llms_iff valid_tts_iff valid_stt_iff)
    have "score c' = spec_total_score r lv tv sv"
      using combine_score_spec [OF d v cy] .
    then show ?thesis using combine_Inr [OF cy] v by blast
  qed
  show ?thesis using 1 2 3 by blast
qed

lemma example_valid:
  "valid_llms example_results = [''B'', ''A'']"
  "valid_tts example_results = [''T'']"
  "valid_stt example_results = [''S'']"
  by (simp_all add: valid_llms_def valid_tts_def valid_stt_def example_results_def
      llm_stats_def tts_stats_def stt_stats_def)

lemma example_get:
  "dict_get (results_llm example_results) ''A'' = llm_stats ''A'' (1/2) (1/20)"
  "dict_get (results_llm example_results) ''B'' = llm_stats ''B'' 1 (1/2)"
  "dict_get (results_tts example_results) ''T'' = tts_stats ''T'' 2"
  "dict_get (results_stt example_results) ''S'' = stt_stats ''S'' 3"
  by (simp_all add: dict_get_def example_results_def)

lemma example_min:
  "min_first_token example_results = 1/2"
  "min_tts_time example_results = 2"
  "min_stt_time example_results = 3"
  by (simp_all add: min_first_token_def min_tts_time_def min_stt_time_def example_valid
      example_get llm_stats_def tts_stats_def stt_stats_def)

lemma example_combine:
  "combine example_results (''A'', ''T'', ''S'') = Inr (ranked ''A'' (1111/1000) (1/2) (1/10))"
  "combine example_results (''B'', ''T'', ''S'') = Inr (ranked ''B'' (1685/1000) 1 (1/2))"
  by (simp_all add: combine_def example_get example_min py_div_def
      llm_stats_def tts_stats_def stt_stats_def ranked_def)

lemma example_generate: "generate_combinations example_results = Inr example_ranked"
  by (simp add: generate_combinations_def new_combinations_def triples_def example_valid
      example_combine) (simp add: example_results_def example_ranked_def ranked_def)

lemma example_distinct:
  "distinct (map fst (results_llm example_results))"
  "distinct (map fst (results_tts example_results))"
  "distinct (map fst (results_stt example_results))"
  by (simp_all add: example_results_def)

theorem combinations_scored_and_sorted_witness:
  "generate_combinations example_results = Inr example_ranked
   \<and> sorted (map score (combinations example_ranked))
   \<and> (\<exists>c\<in>set (combinations example_ranked).
         llm c = ''B'' \<and> tts c = ''T'' \<and> stt c = ''S''
         \<and> score c = spec_total_score example_results
                       (llm_stats ''B'' 1 (1/2)) (tts_stats ''T'' 2) (stt_stats ''S'' 3))
   \<and> map (\<lambda>c. (llm c, score c)) (combinations example_ranked)
       = [(''A'', 1111/1000), (''B'', 1685/1000)]"
proof -
  note T = combinations_scored_and_sorted [OF example_distinct example_generate]
  have s: "sorted (map score (combinations example_ranked))"
    using T by blast
  have m: "(''B'', llm_stats ''B'' 1 (1/2)) \<in> set (results_llm example_results)"
    "(''T'', tts_stats ''T'' 2) \<in> set (results_tts example_results)"
    "(''S'', stt_stats ''S'' 3) \<in> set (results_stt example_results)"
    by (simp_all add: example_results_def)
  have e: "eligible_llm (llm_stats ''B'' 1 (1/2))" "errors (tts_stats ''T'' 2) = 0"
    "errors (stt_stats ''S'' 3) = 0"
    by (simp_all add: eligible_llm_def llm_stats_def tts_stats_def stt_stats_def)
  have b: "\<exists>c\<in>set (combinations example_ranked).
         llm c = ''B'' \<and> tts c = ''T'' \<and> stt c = ''S''
         \<and> score c = spec_total_score example_results
                       (llm_stats ''B'' 1 (1/2)) (tts_stats ''T'' 2) (stt_stats ''S'' 3)"
    using T m e by blast
  have l: "map (\<lambda>c. (llm c, score c)) (combinations example_ranked)
       = [(''A'', 1111/1000), (''B'', 1685/1000)]"
    by (simp add: example_ranked_def ranked_def)
  show ?thesis using example_generate s b l by blast
qed

subsection \<open>The eligibility threshold\<close>

lemma minimum_in: "xs \<noteq> [] \<Longrightarrow> minimum xs \<in> set xs"
  using Min_in [of "set xs"] by (simp add: minimum_Min)

lemma valid_llms_get:
  assumes "distinct (map fst (results_llm r))" and "l \<in> set (valid_llms r)"
  shows "(l, dict_get (results_llm r) l) \<in> set (results_llm r)
         \<and> eligible_llm (dict_get (results_llm r) l)"
  using assms by (auto simp: valid_llms_iff dict_get_distinct)

lemma min_first_token_positive:
  assumes "distinct (map fst (results_llm r))"
  shows "min_first_token r \<ge> 0.05"
proof (cases "valid_llms r = []")
  case True
  then show ?thesis by (simp add: min_first_token_def)
next
  case False
  then have "minimum (map (\<lambda>k. avg_first_token_time (dict_get (results_llm r) k)) (valid_llms r))
      \<in> set (map (\<lambda>k. avg_first_token_time (dict_get (results_llm r) k)) (valid_llms r))"
    by (intro minimum_in) simp
  then obtain l where "l \<in> set (valid_llms r)"
    and "min_first_token r = avg_first_token_time (dict_get (results_llm r) l)"
    using False by (auto simp: min_first_token_def)
  then show ?thesis
    using valid_llms_get [OF assms, of l] by (simp add: eligible_llm_def)
qed

lemma combine_Inl:
  assumes "combine r (l, t, s) = Inl e"
    and "min_first_token r \<noteq> 0"
    and "avg_first_token_time (dict_get (results_llm r) l) \<noteq> 0"
  shows "e = ZeroDivisionError \<and> (min_tts_time r = 0 \<or> min_stt_time r = 0)"
  using assms by (auto simp: combine_def py_div_def Let_def split: if_splits)

lemma combine_stability:
  assumes "combine r (l, t, s) = Inr c"
  shows "llm_stability (details c) =
           std_first_token (dict_get (results_llm r) l)
             / avg_first_token_time (dict_get (results_llm r) l)"
  using assms by (auto simp: combine_def py_div_def Let_def split: if_splits)

lemma generate_combinations_Inl:
  assumes d: "distinct (map fst (results_llm r))"
    and g: "generate_combinations r = Inl x"
  shows "x = ZeroDivisionError \<and> (min_tts_time r = 0 \<or> min_stt_time r = 0)"
proof -
  from g have "new_combinations r = Inl x"
    by (auto simp: generate_combinations_def split: sum.splits)
  then obtain l t s where x: "(l, t, s) \<in> set (triples r)"
    and c: "combine r (l, t, s) = Inl x"
    using for_each_Inl [of "combine r" "triples r" x] by (auto simp: new_combinations_def)
  from x have "l \<in> set (valid_llms r)" by (simp add: set_triples)
  from valid_llms_get [OF d this]
  have "avg_first_token_time (dict_get (results_llm r) l) \<noteq> 0"
    by (auto simp: eligible_llm_def)
  moreover have "min_first_token r \<noteq> 0"
    using min_first_token_positive [OF d] by auto
  ultimately show ?thesis using combine_Inl [OF c] by blast
qed

text \<open>
  The method returns whenever the least synthesis time and the least recognition time
  are not zero.
\<close>

lemma generate_combinations_returns:
  assumes "distinct (map fst (results_llm r))"
    and "min_tts_time r \<noteq> 0" and "min_stt_time r \<noteq> 0"
  shows "\<exists>r'. generate_combinations r = Inr r'"
proof (cases "generate_combinations r")
  case (Inl x)
  with generate_combinations_Inl [OF assms(1) Inl] assms(2,3) show ?thesis by simp
next
  case (Inr r')
  then show ?thesis by simp
qed

text \<open>
  C10. Starting from an empty list of combinations, every combination that
  \<^verbatim>\<open>_generate_combinations\<close> produces names a generation result with no error and an
  average first-token time of at least 0.05 s, and its stability is the quotient by that
  (non-zero) average; an error-free result with a smaller average is in no combination;
  and when the method raises, it is a division by a least synthesis or recognition time
  that is zero, never a division for the generation backend.
\<close>

theorem llm_eligibility_threshold:
  assumes d: "distinct (map fst (results_llm r))"
    and e: "combinations r = []"
  shows "(\<forall>r'. generate_combinations r = Inr r' \<longrightarrow>
            (\<forall>c\<in>set (combinations r').
               \<exists>v. (llm c, v) \<in> set (results_llm r) \<and> errors v = 0
                   \<and> avg_first_token_time v \<ge> 0.05
                   \<and> llm_stability (details c) = std_first_token v / avg_first_token_time v))
    \<and> (\<forall>r' k v. generate_combinations r = Inr r' \<and> (k, v) \<in> set (results_llm r)
            \<and> errors v = 0 \<and> avg_first_token_time v < 0.05 \<longrightarrow>
            k \<notin> llm ` set (combinations r'))
    \<and> (\<forall>x. generate_combinations r = Inl x \<longrightarrow>
            x = ZeroDivisionError \<and> (min_tts_time r = 0 \<or> min_stt_time r = 0))"
proof -
  have 1: "\<exists>v. (llm c, v) \<in> set (results_llm r) \<and> errors v = 0
                   \<and> avg_first_token_time v \<ge> 0.05
                   \<and> llm_stability (details c) = std_first_token v / avg_first_token_time v"
    if g: "generate_combinations r = Inr r'" and c: "c \<in> set (combinations r')" for r' c
  proof -
    from generate_combinations_Inr [OF g] obtain new where
      n: "new_combinations r = Inr new" and "combinations r' = sort_key score (combinations r @ new)"
      by blast
    with c e have "c \<in> set new" by simp
    moreover from n have ok: "\<forall>x\<in>set (triples r). \<exists>y. combine r x = Inr y"
      and new: "new = map (\<lambda>x. projr (combine r x)) (triples r)"
      using for_each_Inr [of "combine r" "triples r" new] by (simp_all add: new_combinations_def)
    ultimately obtain l t s where x: "(l, t, s) \<in> set (triples r)"
      and "c = projr (combine r (l, t, s))"
      by auto
    with ok have cy: "combine r (l, t, s) = Inr c" by force
    from x have "l \<in> set (valid_llms r)" by (simp add: set_triples)
    from valid_llms_get [OF d this] combine_Inr [OF cy] combine_stability [OF cy]
    show ?thesis by (auto simp: eligible_llm_def)
  qed
  have 2: "k \<notin> llm ` set (combinations r')"
    if g: "generate_combinations r = Inr r'" and k: "(k, v) \<in> set (results_llm r)"
      and v: "avg_first_token_time v < 0.05" for r' k v
  proof
    assume "k \<in> llm ` set (combinations r')"
    then obtain c where "c \<in> set (combinations r')" "llm c = k" by auto
    from 1 [OF g this(1)] this(2) obtain v' where
      "(k, v') \<in> set (results_llm r)" "avg_first_token_time v' \<ge> 0.05" by auto
    moreover have "v' = v"
      using d k calculation(1) by (metis dict_get_distinct)
    ultimately show False using v by simp
  qed
  have 3: "x = ZeroDivisionError \<and> (min_tts_time r = 0 \<or> min_stt_time r = 0)"
    if "generate_combinations r = Inl x" for x
    using d that by (rule generate_combinations_Inl)
  show ?thesis using 1 2 3 by blast
qed

theorem llm_eligibility_threshold_witness:
  "generate_combinations example_results = Inr example_ranked
   \<and> (''F'', llm_stats ''F'' (1/100) 0) \<in> set (results_llm example_results)
   \<and> errors (llm_stats ''F'' (1/100) 0) = 0
   \<and> ''F'' \<notin> llm ` set (combinations example_ranked)
   \<and> llm ` set (combinations example_ranked) = {''A'', ''B''}"
proof -
  have e: "combinations example_results = []"
    by (simp add: example_results_def)
  note T = llm_eligibility_threshold [OF example_distinct(1) e]
  have m: "(''F'', llm_stats ''F'' (1/100) 0) \<in> set (results_llm example_results)"
    by (simp add: example_results_def)
  have f: "errors (llm_stats ''F'' (1/100) 0) = 0"
    "avg_first_token_time (llm_stats ''F'' (1/100) 0) < 0.05"
    by (simp_all add: llm_stats_def)
  have n: "''F'' \<notin> llm ` set (combinations example_ranked)"
    using T example_generate m f by blast
  have s: "llm ` set (combinations example_ranked) = {''A'', ''B''}"
    by (simp add: example_ranked_def ranked_def)
  show ?thesis using example_generate m f(1) n s by blast
qed

subsection \<open>Permuted results\<close>

lemmas tie_defs = tie_first_def tie_second_def tie_results_def

lemma tie_valid:
  "valid_llms tie_first = [''A'']" "valid_stt tie_first = [''S'']"
  "valid_tts tie_first = [''T1'', ''T2'']"
  "valid_llms tie_second = [''A'']" "valid_stt tie_second = [''S'']"
  "valid_tts tie_second = [''T2'', ''T1'']"
  by (simp_all add: valid_llms_def valid_stt_def valid_tts_def tie_defs
      llm_stats_def stt_stats_def tts_stats_def)

lemma tie_get:
  "dict_get (results_llm tie_first) ''A'' = llm_stats ''A'' (1/2) (1/20)"
  "dict_get (results_stt tie_first) ''S'' = stt_stats ''S'' 3"
  "dict_get (results_tts tie_first) ''T1'' = tts_stats ''T1'' 2"
  "dict_get (results_tts tie_first) ''T2'' = tts_stats ''T2'' 2"
  "dict_get (results_llm tie_second) ''A'' = llm_stats ''A'' (1/2) (1/20)"
  "dict_get (results_stt tie_second) ''S'' = stt_stats ''S'' 3"
  "dict_get (results_tts tie_second) ''T1'' = tts_stats ''T1'' 2"
  "dict_get (results_tts tie_second) ''T2'' = tts_stats ''T2'' 2"
  by (simp_all add: dict_get_def tie_defs)

lemma tie_min:
  "min_first_token tie_first = 1/2" "min_tts_time tie_first = 2" "min_stt_time tie_first = 3"
  "min_first_token tie_second = 1/2" "min_tts_time tie_second = 2" "min_stt_time tie_second = 3"
  by (simp_all add: min_first_token_def min_tts_time_def min_stt_time_def tie_valid tie_get
      llm_stats_def tts_stats_def stt_stats_def)

lemma tie_combine:
  "combine tie_first (''A'', ''T1'', ''S'') = Inr (tied ''T1'')"
  "combine tie_first (''A'', ''T2'', ''S'') = Inr (tied ''T2'')"
  "combine tie_second (''A'', ''T1'', ''S'') = Inr (tied ''T1'')"
  "combine tie_second (''A'', ''T2'', ''S'') = Inr (tied ''T2'')"
  by (simp_all add: combine_def tie_get tie_min py_div_def llm_stats_def tts_stats_def
      stt_stats_def tied_def)

lemma tie_generate:
  "generate_combinations tie_first
     = Inr (tie_first\<lparr>combinations := [tied ''T1'', tied ''T2'']\<rparr>)"
  "generate_combinations tie_second
     = Inr (tie_second\<lparr>combinations := [tied ''T2'', tied ''T1'']\<rparr>)"
  by (simp_all add: generate_combinations_def new_combinations_def triples_def tie_valid
      tie_combine) (simp_all add: tie_defs tied_def)

text \<open>
  C9, the claim as stated fails: with two synthesis backends of equal average time, the
  two insertion orders of the same entries give two combinations of equal score in
  opposite orders.
\<close>

theorem tied_combinations_follow_insertion_order:
  "mset (results_llm tie_first) = mset (results_llm tie_second)
   \<and> mset (results_tts tie_first) = mset (results_tts tie_second)
   \<and> mset (results_stt tie_first) = mset (results_stt tie_second)
   \<and> combinations tie_first = combinations tie_second
   \<and> map tts (combinations (projr (generate_combinations tie_first))) = [''T1'', ''T2'']
   \<and> map tts (combinations (projr (generate_combinations tie_second))) = [''T2'', ''T1'']
   \<and> map score (combinations (projr (generate_combinations tie_first)))
       = [1111/1000, 1111/1000]"
  unfolding tie_generate by (simp add: tie_defs tied_def)

lemma perm_dict:
  assumes "distinct (map fst d)" and "mset d = mset d'"
  shows "distinct (map fst d')" and "dict_get d = dict_get d'"
proof -
  have "mset (map fst d) = mset (map fst d')"
    using assms(2) by (metis mset_map)
  then show d': "distinct (map fst d')"
    using assms(1) by (metis mset_eq_imp_distinct_iff)
  have "set d = set d'"
    using assms(2) by (rule mset_eq_setD)
  then have "map_of d = map_of d'"
    using assms(1) d' by (simp add: map_of_inject_set)
  then show "dict_get d = dict_get d'"
    by (simp add: dict_get_def fun_eq_iff)
qed

lemma perm_keys:
  "mset d = mset d' \<Longrightarrow> mset (map fst (filter P d)) = mset (map fst (filter P d'))"
  by (metis mset_filter mset_map)

lemma minimum_perm:
  assumes "mset xs = mset ys"
  shows "minimum xs = minimum ys"
proof (cases "xs = []")
  case True
  with assms show ?thesis by simp
next
  case False
  with assms have "ys \<noteq> []" by auto
  moreover have "set xs = set ys" using assms by (rule mset_eq_setD)
  ultimately show ?thesis using False by (simp add: minimum_Min)
qed

lemma perm_nonempty: "mset xs = mset ys \<Longrightarrow> xs = [] \<longleftrightarrow> ys = []"
  by (metis mset_zero_iff)

lemma triples_product:
  "triples r = List.product (valid_llms r) (List.product (valid_tts r) (valid_stt r))"
  by (simp add: triples_def product_concat_map map_concat comp_def)

lemma distinct_keys_filter:
  "distinct (map fst d) \<Longrightarrow> distinct (map fst (filter P d))"
  by (rule distinct_map_filter)

lemma perm_triples:
  assumes "distinct (valid_llms r1)" "distinct (valid_tts r1)" "distinct (valid_stt r1)"
    and "mset (valid_llms r1) = mset (valid_llms r2)"
    and "mset (valid_tts r1) = mset (valid_tts r2)"
    and "mset (valid_stt r1) = mset (valid_stt r2)"
  shows "mset (triples r1) = mset (triples r2)"
proof -
  have d2: "distinct (valid_llms r2)" "distinct (valid_tts r2)" "distinct (valid_stt r2)"
    using assms by (metis mset_eq_imp_distinct_iff)+
  have "distinct (triples r1)" "distinct (triples r2)"
    using assms(1-3) d2 by (simp_all add: triples_product distinct_product)
  moreover have "set (triples r1) = set (triples r2)"
    using assms(4-6) [THEN mset_eq_setD] by (simp add: set_triples)
  ultimately show ?thesis
    by (simp add: set_eq_iff_mset_eq_distinct)
qed

lemma perm_results:
  assumes d: "distinct (map fst (results_llm r1))" "distinct (map fst (results_tts r1))"
      "distinct (map fst (results_stt r1))"
    and p: "mset (results_llm r1) = mset (results_llm r2)"
      "mset (results_tts r1) = mset (results_tts r2)"
      "mset (results_stt r1) = mset (results_stt r2)"
  shows "combine r1 = combine r2" and "mset (triples r1) = mset (triples r2)"
proof -
  have g: "dict_get (results_llm r1) = dict_get (results_llm r2)"
    "dict_get (results_tts r1) = dict_get (results_tts r2)"
    "dict_get (results_stt r1) = dict_get (results_stt r2)"
    using perm_dict(2) d p by blast+
  have v: "mset (valid_llms r1) = mset (valid_llms r2)"
    "mset (valid_tts r1) = mset (valid_tts r2)"
    "mset (valid_stt r1) = mset (valid_stt r2)"
    unfolding valid_llms_def valid_tts_def valid_stt_def using p by (simp_all add: perm_keys)
  have dv: "distinct (valid_llms r1)" "distinct (valid_tts r1)" "distinct (valid_stt r1)"
    unfolding valid_llms_def valid_tts_def valid_stt_def using d
    by (simp_all add: distinct_keys_filter)
  have m: "min_first_token r1 = min_first_token r2" "min_tts_time r1 = min_tts_time r2"
    "min_stt_time r1 = min_stt_time r2"
    unfolding min_first_token_def min_tts_time_def min_stt_time_def g
    using v perm_nonempty [OF v(1)] perm_nonempty [OF v(2)] perm_nonempty [OF v(3)]
    by (auto intro!: minimum_perm)
  show "combine r1 = combine r2"
    unfolding combine_def g m ..
  show "mset (triples r1) = mset (triples r2)"
    using perm_triples [OF dv v] .
qed

lemma sorted_scores_perm:
  fixes xs ys :: "combination list"
  assumes "mset xs = mset ys"
  shows "map score (sort_key score xs) = map score (sort_key score ys)"
proof -
  have k: "sort (map score zs) = map score (sort_key score zs)" for zs :: "combination list"
    by (rule properties_for_sort) simp_all
  have "sort (map score xs) = sort (map score ys)"
  proof (rule properties_for_sort)
    have "mset (map score ys) = mset (map score xs)"
      using assms by (metis mset_map)
    then show "mset (sort (map score ys)) = mset (map score xs)" by simp
    show "sorted (sort (map score ys))" by simp
  qed
  then show ?thesis by (simp only: k)
qed

lemma generated_names:
  assumes "new_combinations r = Inr new"
  shows "map names new = triples r"
proof -
  from assms have ok: "\<forall>x\<in>set (triples r). \<exists>y. combine r x = Inr y"
    and new: "new = map (\<lambda>x. projr (combine r x)) (triples r)"
    using for_each_Inr [of "combine r" "triples r" new] by (simp_all add: new_combinations_def)
  have "names (projr (combine r x)) = x" if "x \<in> set (triples r)" for x
  proof -
    obtain l t s where x: "x = (l, t, s)" by (cases x) auto
    from that ok obtain y where "combine r x = Inr y" by blast
    with x combine_Inr [of r l t s y] show ?thesis by (simp add: names_def)
  qed
  then show ?thesis unfolding new by (simp add: map_idI)
qed

lemma tied_with_sorted: "tied_with k (sort_key score cs) = tied_with k cs"
  unfolding tied_with_def by (rule sort_key_stable)

text \<open>
  C9, as amended. When the three result dictionaries of two runs hold the same entries
  in different insertion orders, \<^verbatim>\<open>_generate_combinations\<close> returns for the one
  whenever it returns for the other, with the same combinations as a multiset and the
  same sequence of scores; the two sorted lists are identical, position by position,
  when no two combinations have equal scores. In each run the new combinations are
  generated in the order of the nested iteration over the three dictionaries, and the
  combinations of one score stand in the sorted list in the order in which they were in
  the list before sorting: the old ones, then the new ones as generated.
\<close>

theorem permuted_results_same_ranking:
  assumes d: "distinct (map fst (results_llm r1))" "distinct (map fst (results_tts r1))"
      "distinct (map fst (results_stt r1))"
    and p: "mset (results_llm r1) = mset (results_llm r2)"
      "mset (results_tts r1) = mset (results_tts r2)"
      "mset (results_stt r1) = mset (results_stt r2)"
    and c: "combinations r1 = combinations r2"
    and g: "generate_combinations r1 = Inr r1'"
  shows "\<exists>r2' new1 new2. generate_combinations r2 = Inr r2'
           \<and> new_combinations r1 = Inr new1 \<and> map names new1 = triples r1
           \<and> new_combinations r2 = Inr new2 \<and> map names new2 = triples r2
           \<and> (\<forall>k. tied_with k (combinations r1')
                     = tied_with k (combinations r1 @ new1))
           \<and> (\<forall>k. tied_with k (combinations r2')
                     = tied_with k (combinations r2 @ new2))
           \<and> mset (combinations r2') = mset (combinations r1')
           \<and> map score (combinations r2') = map score (combinations r1')
           \<and> (distinct (map score (combinations r1'))
                \<longrightarrow> combinations r2' = combinations r1')"
proof -
  from generate_combinations_Inr [OF g] obtain new1 where
    n1: "new_combinations r1 = Inr new1"
    and c1: "combinations r1' = sort_key score (combinations r1 @ new1)"
    by blast
  from n1 have ok1: "\<forall>x\<in>set (triples r1). \<exists>y. combine r1 x = Inr y"
    and new1: "new1 = map (\<lambda>x. projr (combine r1 x)) (triples r1)"
    using for_each_Inr [of "combine r1" "triples r1" new1]
    by (simp_all add: new_combinations_def)
  note e = perm_results [OF d p]
  define new2 where "new2 = map (\<lambda>x. projr (combine r2 x)) (triples r2)"
  have "set (triples r1) = set (triples r2)"
    using e(2) by (rule mset_eq_setD)
  with ok1 have "\<forall>x\<in>set (triples r2). \<exists>y. combine r2 x = Inr y"
    by (simp add: e(1))
  then have n2: "new_combinations r2 = Inr new2"
    unfolding new_combinations_def new2_def by (rule for_each_all_Inr)
  define r2' where "r2' = r2\<lparr>combinations := sort_key score (combinations r2 @ new2)\<rparr>"
  have g2: "generate_combinations r2 = Inr r2'"
    by (simp add: generate_combinations_def n2 r2'_def)
  have c2: "combinations r2' = sort_key score (combinations r2 @ new2)"
    by (simp add: r2'_def)
  have mn: "mset new2 = mset new1"
    unfolding new1 new2_def e(1) using e(2) by (metis mset_map)
  then have ml: "mset (combinations r2 @ new2) = mset (combinations r1 @ new1)"
    by (simp add: c)
  have 1: "mset (combinations r2') = mset (combinations r1')"
    by (simp add: c1 c2 mn c)
  have 2: "map score (combinations r2') = map score (combinations r1')"
    unfolding c1 c2 using ml by (rule sorted_scores_perm)
  have 3: "combinations r2' = combinations r1'"
    if "distinct (map score (combinations r1'))"
  proof -
    have "inj_on score (set (combinations r1'))"
      using that by (simp add: distinct_map)
    moreover have "set (combinations r2 @ new2) = set (combinations r1')"
      using ml [THEN mset_eq_setD] by (simp add: c1)
    ultimately have i: "inj_on score (set (combinations r2 @ new2))" by simp
    have m: "mset (combinations r2 @ new2) = mset (combinations r1')"
      using ml by (simp add: c1)
    have "sorted (map score (combinations r1'))" by (simp add: c1)
    with m i have "sort_key score (combinations r2 @ new2) = combinations r1'"
      by (rule sort_key_inj_key_eq)
    then show ?thesis by (simp add: c2)
  qed
  have 4: "tied_with k (combinations r1') = tied_with k (combinations r1 @ new1)" for k
    unfolding c1 by (rule tied_with_sorted)
  have 5: "tied_with k (combinations r2') = tied_with k (combinations r2 @ new2)" for k
    unfolding c2 by (rule tied_with_sorted)
  have 6: "map names new1 = triples r1"
    using n1 by (rule generated_names)
  have 7: "map names new2 = triples r2"
    using n2 by (rule generated_names)
  show ?thesis using g2 n1 n2 1 2 3 4 5 6 7 by blast
qed

lemma tie_new:
  "new_combinations tie_second = Inr [tied ''T2'', tied ''T1'']"
  by (simp add: new_combinations_def triples_def tie_valid tie_combine)

theorem permuted_results_same_ranking_witness:
  "results_llm example_permuted \<noteq> results_llm example_results
   \<and> (\<exists>r2'. generate_combinations example_permuted = Inr r2'
          \<and> combinations r2' = combinations example_ranked)
   \<and> map llm (combinations example_ranked) = [''A'', ''B'']
   \<and> results_tts tie_second \<noteq> results_tts tie_first
   \<and> (\<exists>r2'. generate_combinations tie_second = Inr r2'
          \<and> map tts (tied_with (1111/1000) (combinations r2')) = [''T2'', ''T1''])"
proof -
  have p: "mset (results_llm example_results) = mset (results_llm example_permuted)"
    "mset (results_tts example_results) = mset (results_tts example_permuted)"
    "mset (results_stt example_results) = mset (results_stt example_permuted)"
    by (simp_all add: example_permuted_def example_results_def)
  have c: "combinations example_results = combinations example_permuted"
    by (simp add: example_permuted_def)
  have s: "distinct (map score (combinations example_ranked))"
    by (simp add: example_ranked_def ranked_def)
  have n: "results_llm example_permuted \<noteq> results_llm example_results"
    by (simp add: example_permuted_def example_results_def)
  have l: "map llm (combinations example_ranked) = [''A'', ''B'']"
    by (simp add: example_ranked_def ranked_def)
  from permuted_results_same_ranking [OF example_distinct p c example_generate] s
  have 1: "\<exists>r2'. generate_combinations example_permuted = Inr r2'
          \<and> combinations r2' = combinations example_ranked"
    by blast
  have td: "distinct (map fst (results_llm tie_first))"
    "distinct (map fst (results_tts tie_first))" "distinct (map fst (results_stt tie_first))"
    by (simp_all add: tie_defs)
  have tp: "mset (results_llm tie_first) = mset (results_llm tie_second)"
    "mset (results_tts tie_first) = mset (results_tts tie_second)"
    "mset (results_stt tie_first) = mset (results_stt tie_second)"
    by (simp_all add: tie_defs)
  have tc: "combinations tie_first = combinations tie_second"
    by (simp add: tie_defs)
  have tn: "results_tts tie_second \<noteq> results_tts tie_first"
    by (simp add: tie_defs)
  from permuted_results_same_ranking [OF td tp tc tie_generate(1)]
  obtain r2' new2 where g2: "generate_combinations tie_second = Inr r2'"
    and n2: "new_combinations tie_second = Inr new2"
    and t2: "\<forall>k. tied_with k (combinations r2')
                  = tied_with k (combinations tie_second @ new2)"
    by blast
  from n2 have nw: "new2 = [tied ''T2'', tied ''T1'']"
    by (simp add: tie_new)
  from t2 have "tied_with (1111/1000) (combinations r2')
      = tied_with (1111/1000) (combinations tie_second @ new2)"
    by blast
  also have "\<dots> = [tied ''T2'', tied ''T1'']"
    unfolding nw by (simp add: tie_defs tied_with_def tied_def)
  finally have "tied_with (1111/1000) (combinations r2') = [tied ''T2'', tied ''T1'']" .
  then have "map tts (tied_with (1111/1000) (combinations r2')) = [''T2'', ''T1'']"
    by (simp add: tied_def)
  with g2 have 2: "\<exists>r2'. generate_combinations tie_second = Inr r2'
          \<and> map tts (tied_with (1111/1000) (combinations r2')) = [''T2'', ''T1'']"
    by (intro exI [of _ r2'] conjI)
  show ?thesis using n 1 l tn 2 by (intro conjI)
qed

section \<open>The run\<close>

lemma store_failed: "error_count out \<noteq> Some 0 \<Longrightarrow> store r out = r"
  by (cases out) auto

lemma errors_tts_error: "errors (tts_error n) = 1"
  by (simp add: tts_error_def)

lemma errors_stt_error: "errors (stt_error n) = 1"
  by (simp add: stt_error_def)

lemma execute_uninterrupted: "interrupted w u = None \<Longrightarrow> execute t w u = unit_result t w u"
  by (simp add: execute_def)

lemma raising_unit_error_count:
  assumes "probe_raises t w u"
  shows "error_count (execute t w u) = Some 1"
proof -
  from assms have i: "interrupted w u = None" and b: "body_raises t w u"
    by (simp_all add: probe_raises_def)
  from b have "error_count (unit_result t w u) = Some 1"
    by (cases u)
      (auto simp: test_llm_performance_def test_tts_performance_def test_stt_performance_def
        errors_llm_error errors_tts_error errors_stt_error split: sum.splits)
  with i show ?thesis by (simp add: execute_uninterrupted)
qed

lemma stops_loop_error_count: "error_count out \<noteq> None \<Longrightarrow> stops_loop out = None"
  by (cases out) auto

lemma first_stop_insert:
  "stops_loop (execute t w u) = None
   \<Longrightarrow> first_stop t w (before @ u # after) = first_stop t w (before @ after)"
  by (induction before) (simp_all cong: option.case_cong)

lemma first_stop_None:
  "first_stop t w tasks = None \<longleftrightarrow> (\<forall>u\<in>set tasks. stops_loop (execute t w u) = None)"
  by (induction tasks) (auto split: option.splits)

lemma gather_Inr:
  "gather t w tasks = Inr xs \<longleftrightarrow> first_stop t w tasks = None \<and> xs = map (execute t w) tasks"
  by (auto simp: gather_def split: option.splits)

lemma gather_Inl:
  "gather t w tasks = Inl b \<longleftrightarrow> (\<exists>s. first_stop t w tasks = Some (s, b))"
  by (auto simp: gather_def split: option.splits)

lemma budget_tasks:
  "all_tasks budget_tester =
     [TtsTask ''T1'' no_credentials, TtsTask ''T2'' no_credentials,
      TtsTask ''T3'' no_credentials]"
  by (simp add: all_tasks_def llm_tasks_def tts_tasks_def stt_tasks_def budget_tester_def
      token_not_configured_def token_fields_def no_credentials_def)

lemma steady_probe:
  "test_tts_performance [''Hello, please introduce yourself''] n no_credentials steady_tts
     = steady_result n"
  by (simp add: test_tts_performance_def tts_probe_def token_not_configured_def
      token_fields_def no_credentials_def steady_tts_def py_mean_def mean_def stdev_or_0_def
      steady_result_def)

lemma failing_probe:
  "isl (tts_probe [''Hello, please introduce yourself''] n no_credentials failing_tts)"
  by (simp add: tts_probe_def token_not_configured_def
      token_fields_def no_credentials_def failing_tts_def)

lemma budget_execute:
  "execute budget_tester budget_world (TtsTask n no_credentials) = TtsOutcome (steady_result n)"
  by (simp add: execute_def budget_tester_def budget_world_def steady_probe)

lemma budget_gather:
  "gather budget_tester budget_world (all_tasks budget_tester)
     = Inr [TtsOutcome (steady_result ''T1''), TtsOutcome (steady_result ''T2''),
            TtsOutcome (steady_result ''T3'')]"
  by (simp add: gather_def budget_tasks budget_execute)

lemma generate_initial: "generate_combinations initial_results = Inr initial_results"
  by (simp add: generate_combinations_def new_combinations_def triples_def valid_llms_def
      initial_results_def)

lemma generate_tts_only:
  "generate_combinations (initial_results\<lparr>results_tts := ts\<rparr>)
     = Inr (initial_results\<lparr>results_tts := ts\<rparr>)"
  by (simp add: generate_combinations_def new_combinations_def triples_def valid_llms_def
      initial_results_def)

lemma budget_run:
  "run budget_tester budget_world
     = Inr (initial_results
             \<lparr>results_tts :=
                [(''T1'', steady_result ''T1''), (''T2'', steady_result ''T2''),
                 (''T3'', steady_result ''T3'')]\<rparr>)"
proof -
  have "process_results initial_results
          [TtsOutcome (steady_result ''T1''), TtsOutcome (steady_result ''T2''),
           TtsOutcome (steady_result ''T3'')]
        = initial_results
             \<lparr>results_tts :=
                [(''T1'', steady_result ''T1''), (''T2'', steady_result ''T2''),
                 (''T3'', steady_result ''T3'')]\<rparr>"
    by (simp add: process_results_def) (simp add: steady_result_def initial_results_def)
  moreover have "self_results budget_tester = initial_results"
    by (simp add: budget_tester_def)
  ultimately show ?thesis
    by (simp add: run_def budget_gather generate_tts_only)
qed

lemma timeout_report_all_or_nothing:
  "run_with_timeout t w timeout_seconds = run t w
   \<or> run_with_timeout t w timeout_seconds = timeout_report t"
  by (simp add: run_with_timeout_def)

text \<open>
  C2. The claim: with a budget of 2 s and units taking 1 s, 1 s and 5 s, the report
  holds the two results that were ready. In the source the results are stored only
  after the gathering has returned, so the report after a timeout is made from the
  results as they were before the run: with three synthesis backends that all answer,
  finishing after 1, 1 and 5 seconds, the report under a budget of 2 s holds no result
  at all, where a budget of 6 s gives all three.
\<close>

theorem timeout_report_is_empty:
  "map (finished_after budget_world) (all_tasks budget_tester) = [1, 1, 5]
   \<and> run_with_timeout budget_tester budget_world 2 = Inr initial_results
   \<and> run_with_timeout budget_tester budget_world 6
       = Inr (initial_results
               \<lparr>results_tts :=
                  [(''T1'', steady_result ''T1''), (''T2'', steady_result ''T2''),
                   (''T3'', steady_result ''T3'')]\<rparr>)"
proof -
  have f: "map (finished_after budget_world) (all_tasks budget_tester) = [1, 1, 5]"
    by (simp add: budget_tasks) (simp add: budget_world_def)
  have "first_stop budget_tester budget_world (all_tasks budget_tester) = None"
    by (simp add: budget_tasks budget_execute)
  with f have g: "run_finished_after budget_tester budget_world = 5"
    by (simp add: run_finished_after_def gather_finished_after_def)
  have i: "timeout_report budget_tester = Inr initial_results"
    by (simp add: timeout_report_def budget_tester_def generate_initial)
  have a: "run_with_timeout budget_tester budget_world 2 = Inr initial_results"
    by (simp add: run_with_timeout_def g i)
  have b: "run_with_timeout budget_tester budget_world 6
       = Inr (initial_results
               \<lparr>results_tts :=
                  [(''T1'', steady_result ''T1''), (''T2'', steady_result ''T2''),
                   (''T3'', steady_result ''T3'')]\<rparr>)"
    by (simp add: run_with_timeout_def g budget_run)
  show ?thesis using f a b by blast
qed

subsection \<open>A unit that fails\<close>

lemma interrupt_execute:
  "execute budget_tester (interrupt_world b) (TtsTask n no_credentials)
     = (if n = ''T2'' then ExceptionOutcome b else TtsOutcome (steady_result n))"
  by (simp add: execute_def interrupt_world_def budget_tester_def budget_world_def
      steady_probe)

text \<open>
  C8, the claim as stated fails: a unit that meets a \<^verbatim>\<open>KeyboardInterrupt\<close> is not
  turned into a result with error count 1; the exception ends the run, and the results
  of its two siblings, which the run without the interruption stores, are not collected.
  A unit that is cancelled comes back as an exception object, with no error count.
\<close>

theorem interrupted_unit_ends_the_run:
  "execute budget_tester (interrupt_world KeyboardInterrupt) (TtsTask ''T2'' no_credentials)
     = ExceptionOutcome KeyboardInterrupt
   \<and> error_count (ExceptionOutcome KeyboardInterrupt) = None
   \<and> run budget_tester (interrupt_world KeyboardInterrupt)
       = Inl (Interruption KeyboardInterrupt)
   \<and> run budget_tester budget_world
       = Inr (initial_results
               \<lparr>results_tts :=
                  [(''T1'', steady_result ''T1''), (''T2'', steady_result ''T2''),
                   (''T3'', steady_result ''T3'')]\<rparr>)
   \<and> gather budget_tester (interrupt_world CancelledError) (all_tasks budget_tester)
       = Inr [TtsOutcome (steady_result ''T1''), ExceptionOutcome CancelledError,
              TtsOutcome (steady_result ''T3'')]"
proof -
  have g: "gather budget_tester (interrupt_world KeyboardInterrupt) (all_tasks budget_tester)
      = Inl KeyboardInterrupt"
    by (simp add: gather_def budget_tasks interrupt_execute)
  have c: "gather budget_tester (interrupt_world CancelledError) (all_tasks budget_tester)
       = Inr [TtsOutcome (steady_result ''T1''), ExceptionOutcome CancelledError,
              TtsOutcome (steady_result ''T3'')]"
    by (simp add: gather_def budget_tasks interrupt_execute)
  show ?thesis
    using c budget_run by (simp add: interrupt_execute run_def g)
qed

text \<open>
  C8, as amended. A unit whose probe raises a subclass of \<^verbatim>\<open>Exception\<close> leaves a
  result dictionary with error count 1. It never ends the gathering: the gathering of
  all units is ended by an interruption exactly when the gathering of its siblings alone
  is; and when the siblings are gathered, so are all units, the outcomes of the siblings
  are what they are without it, with its error result at its place, and the results
  stored are those stored from the siblings alone.
\<close>

theorem failing_unit_is_isolated:
  assumes "probe_raises t w u"
  shows "error_count (execute t w u) = Some 1
    \<and> (\<forall>b. gather t w (before @ u # after) = Inl b
            \<longleftrightarrow> gather t w (before @ after) = Inl b)
    \<and> (\<forall>xs. gather t w (before @ after) = Inr xs \<longrightarrow>
          gather t w (before @ u # after)
            = Inr (take (length before) xs @ execute t w u # drop (length before) xs)
          \<and> process_results r
               (take (length before) xs @ execute t w u # drop (length before) xs)
              = process_results r xs)"
proof -
  have e: "error_count (execute t w u) = Some 1"
    using assms by (rule raising_unit_error_count)
  then have n: "stops_loop (execute t w u) = None"
    by (simp add: stops_loop_error_count)
  have f: "first_stop t w (before @ u # after) = first_stop t w (before @ after)"
    using n by (rule first_stop_insert)
  have s: "store r' (execute t w u) = r'" for r'
    using e by (simp add: store_failed)
  have 2: "gather t w (before @ u # after) = Inl b \<longleftrightarrow> gather t w (before @ after) = Inl b"
    for b
    by (simp add: gather_Inl f)
  have 3: "gather t w (before @ u # after)
            = Inr (take (length before) xs @ execute t w u # drop (length before) xs)
          \<and> process_results r
               (take (length before) xs @ execute t w u # drop (length before) xs)
              = process_results r xs"
    if "gather t w (before @ after) = Inr xs" for xs
  proof -
    from that have x: "xs = map (execute t w) before @ map (execute t w) after"
      and "first_stop t w (before @ after) = None"
      by (simp_all add: gather_Inr)
    with f have "gather t w (before @ u # after)
        = Inr (map (execute t w) before @ execute t w u # map (execute t w) after)"
      by (simp add: gather_Inr)
    moreover have "take (length before) xs = map (execute t w) before"
      "drop (length before) xs = map (execute t w) after"
      by (simp_all add: x)
    ultimately show ?thesis
      by (simp add: process_results_def s x)
  qed
  show ?thesis using e 2 3 by blast
qed

theorem failing_unit_is_isolated_witness:
  "probe_raises budget_tester crash_world (TtsTask ''T2'' no_credentials)
   \<and> error_count (execute budget_tester crash_world (TtsTask ''T2'' no_credentials)) = Some 1
   \<and> gather budget_tester crash_world (all_tasks budget_tester)
       = Inr [TtsOutcome (steady_result ''T1''),
              execute budget_tester crash_world (TtsTask ''T2'' no_credentials),
              TtsOutcome (steady_result ''T3'')]
   \<and> process_results initial_results
        [TtsOutcome (steady_result ''T1''),
         execute budget_tester crash_world (TtsTask ''T2'' no_credentials),
         TtsOutcome (steady_result ''T3'')]
       = initial_results
           \<lparr>results_tts := [(''T1'', steady_result ''T1''), (''T3'', steady_result ''T3'')]\<rparr>"
proof -
  have r: "probe_raises budget_tester crash_world (TtsTask ''T2'' no_credentials)"
    by (simp add: probe_raises_def budget_tester_def crash_world_def budget_world_def
        failing_probe)
  have x: "execute budget_tester crash_world (TtsTask ''T1'' no_credentials)
             = TtsOutcome (steady_result ''T1'')"
    "execute budget_tester crash_world (TtsTask ''T3'' no_credentials)
             = TtsOutcome (steady_result ''T3'')"
    by (simp_all add: execute_def budget_tester_def crash_world_def budget_world_def
        steady_probe)
  have g: "gather budget_tester crash_world
             ([TtsTask ''T1'' no_credentials] @ [TtsTask ''T3'' no_credentials])
           = Inr [TtsOutcome (steady_result ''T1''), TtsOutcome (steady_result ''T3'')]"
    by (simp add: gather_def x)
  have y: "process_results initial_results
             [TtsOutcome (steady_result ''T1''), TtsOutcome (steady_result ''T3'')]
        = initial_results
           \<lparr>results_tts := [(''T1'', steady_result ''T1''), (''T3'', steady_result ''T3'')]\<rparr>"
    by (simp add: process_results_def) (simp add: steady_result_def initial_results_def)
  note T = failing_unit_is_isolated [OF r, of "[TtsTask ''T1'' no_credentials]"
      "[TtsTask ''T3'' no_credentials]" initial_results]
  have e: "error_count (execute budget_tester crash_world (TtsTask ''T2'' no_credentials))
             = Some 1"
    using T by (rule conjunct1)
  from T g have q:
    "gather budget_tester crash_world
       ([TtsTask ''T1'' no_credentials] @ TtsTask ''T2'' no_credentials
          # [TtsTask ''T3'' no_credentials])
     = Inr [TtsOutcome (steady_result ''T1''),
            execute budget_tester crash_world (TtsTask ''T2'' no_credentials),
            TtsOutcome (steady_result ''T3'')]
     \<and> process_results initial_results
         [TtsOutcome (steady_result ''T1''),
          execute budget_tester crash_world (TtsTask ''T2'' no_credentials),
          TtsOutcome (steady_result ''T3'')]
       = process_results initial_results
           [TtsOutcome (steady_result ''T1''), TtsOutcome (steady_result ''T3'')]"
    by auto
  have t: "all_tasks budget_tester =
      [TtsTask ''T1'' no_credentials] @ TtsTask ''T2'' no_credentials
        # [TtsTask ''T3'' no_credentials]"
    by (simp add: budget_tasks)
  show ?thesis
    using r e q unfolding t y by blast
qed

subsection \<open>Placeholder credentials\<close>

lemma placeholder_flags:
  "token_not_configured token_placeholder"
  "\<not> api_key_not_configured token_placeholder"
  "api_key_not_configured coze_key_placeholder"
  "\<not> coze_not_configured coze_key_placeholder"
  "\<not> token_not_configured no_credentials"
  by (simp_all add: token_not_configured_def api_key_not_configured_def coze_not_configured_def
      token_fields_def token_placeholder_def coze_key_placeholder_def no_credentials_def
      any_in_def get_or_empty_def your_zh_def)

lemma placeholder_tasks:
  "all_tasks placeholder_tester =
     [LlmTask ''ChatGLMLLM'' token_placeholder, LlmTask ''CozeLLM'' coze_key_placeholder,
      TtsTask ''EdgeTTS'' no_credentials]"
  by (simp add: all_tasks_def llm_tasks_def tts_tasks_def stt_tasks_def placeholder_tester_def
      placeholder_flags)

text \<open>
  C4, the claim as stated fails: a generation backend with a placeholder in
  \<^verbatim>\<open>access_token\<close> gets its unit of work, and so does a \<^verbatim>\<open>CozeLLM\<close> with a
  placeholder in \<^verbatim>\<open>api_key\<close>, whose probe then returns the error result, with
  error count 1.
\<close>

theorem placeholder_backend_is_probed:
  "token_not_configured token_placeholder
   \<and> api_key_not_configured coze_key_placeholder
   \<and> all_tasks placeholder_tester =
       [LlmTask ''ChatGLMLLM'' token_placeholder, LlmTask ''CozeLLM'' coze_key_placeholder,
        TtsTask ''EdgeTTS'' no_credentials]
   \<and> execute placeholder_tester budget_world (LlmTask ''CozeLLM'' coze_key_placeholder)
       = LlmOutcome (llm_error ''CozeLLM'')
   \<and> errors (llm_error ''CozeLLM'') = 1"
  by (simp add: placeholder_flags placeholder_tasks test_llm_performance_def llm_probe_def
      errors_llm_error execute_def budget_world_def)

lemma llm_task_iff:
  "task \<in> set (llm_tasks c) \<longleftrightarrow>
     (\<exists>entries n cfg. LLM c = Some entries \<and> (n, cfg) \<in> set entries
        \<and> \<not> disqualified Generation n cfg \<and> task = LlmTask n cfg)"
proof (cases "LLM c")
  case None
  then show ?thesis by (simp add: llm_tasks_def)
next
  case (Some entries)
  then show ?thesis
    by (simp add: llm_tasks_def image_iff split_beta del: disqualified.simps) auto
qed

lemma tts_task_iff:
  "task \<in> set (tts_tasks c) \<longleftrightarrow>
     (\<exists>entries n cfg. TTS c = Some entries \<and> (n, cfg) \<in> set entries
        \<and> \<not> disqualified Synthesis n cfg \<and> task = TtsTask n cfg)"
proof (cases "TTS c")
  case None
  then show ?thesis by (simp add: tts_tasks_def)
next
  case (Some entries)
  then show ?thesis
    by (auto simp: tts_tasks_def image_iff split_beta)
qed

lemma stt_tasks_none: "ASR c = None \<Longrightarrow> stt_tasks c wavs = []"
  unfolding stt_tasks_def by (cases "length wavs \<ge> 1") simp_all

lemma stt_tasks_no_audio: "wavs = [] \<Longrightarrow> stt_tasks c wavs = []"
  unfolding stt_tasks_def by simp

lemma stt_tasks_some:
  "wavs \<noteq> [] \<Longrightarrow> ASR c = Some entries \<Longrightarrow>
   stt_tasks c wavs =
     map (\<lambda>(stt_name, config). SttTask stt_name config)
       (filter (\<lambda>(stt_name, config). \<not> token_not_configured config) entries)"
  unfolding stt_tasks_def by (cases wavs) simp_all

lemma stt_task_iff:
  "task \<in> set (stt_tasks c wavs) \<longleftrightarrow>
     (\<exists>entries n cfg. wavs \<noteq> [] \<and> ASR c = Some entries \<and> (n, cfg) \<in> set entries
        \<and> \<not> disqualified Recognition n cfg \<and> task = SttTask n cfg)"
proof (cases "wavs = []")
  case True
  then show ?thesis by (simp add: stt_tasks_no_audio)
next
  case False
  show ?thesis
  proof (cases "ASR c")
    case None
    then show ?thesis by (simp add: stt_tasks_none)
  next
    case (Some entries)
    with False show ?thesis
      by (auto simp: stt_tasks_some image_iff split_beta)
  qed
qed

lemma scheduled_task:
  assumes "task_of k n cfg \<in> set (all_tasks t)"
  shows "\<exists>entries. section_of k (self_config t) = Some entries
           \<and> (n, cfg) \<in> set entries \<and> \<not> disqualified k n cfg"
proof -
  from assms have
    "task_of k n cfg \<in> set (llm_tasks (self_config t))
     \<or> task_of k n cfg \<in> set (tts_tasks (self_config t))
     \<or> task_of k n cfg \<in> set (stt_tasks (self_config t) (self_test_wav_list t))"
    by (simp add: all_tasks_def)
  then show ?thesis
    unfolding llm_task_iff tts_task_iff stt_task_iff
    by (cases k) (auto simp del: disqualified.simps)
qed

lemma skipped_entry:
  assumes s: "section_of k (self_config t) = Some entries"
    and d: "distinct (map fst entries)"
    and m: "(n, cfg) \<in> set entries"
    and q: "disqualified k n cfg"
  shows "task_of k n cfg' \<notin> set (all_tasks t)"
proof
  assume "task_of k n cfg' \<in> set (all_tasks t)"
  from scheduled_task [OF this] s have "(n, cfg') \<in> set entries" "\<not> disqualified k n cfg'"
    by auto
  moreover from this(1) m d have "cfg' = cfg"
    by (meson eq_key_imp_eq_value)
  ultimately show False using q by simp
qed

lemma name_aggregate_llm: "name (aggregate_llm n rs) = n"
  by (simp add: aggregate_llm_def Let_def llm_error_def)

lemma name_test_llm_performance: "name (test_llm_performance s n cfg w) = n"
  by (auto simp: test_llm_performance_def llm_probe_def llm_error_def name_aggregate_llm
      split: sum.splits if_splits)

lemma name_test_tts_performance: "name (test_tts_performance s n cfg w) = n"
  by (auto simp: test_tts_performance_def tts_probe_def tts_error_def
      split: sum.splits if_splits option.splits prod.splits)

lemma name_test_stt_performance: "name (test_stt_performance s n cfg w) = n"
  by (auto simp: test_stt_performance_def stt_probe_def stt_error_def
      split: sum.splits if_splits option.splits prod.splits)

lemma keys_dict_set: "fst ` set (dict_set d k v) = insert k (fst ` set d)"
  by (induction d k v rule: dict_set.induct) auto

lemma result_names_store:
  "n \<in> set (result_names k (store r (execute t w u)))
   \<Longrightarrow> n \<in> set (result_names k r) \<or> (\<exists>cfg. u = task_of k n cfg)"
proof (cases "interrupted w u")
  case None
  assume "n \<in> set (result_names k (store r (execute t w u)))"
  with None have "n \<in> set (result_names k (store r (unit_result t w u)))"
    by (simp add: execute_uninterrupted)
  then show ?thesis
    by (cases u; cases k)
      (auto simp: keys_dict_set name_test_llm_performance name_test_tts_performance
        name_test_stt_performance split: if_splits)
next
  case (Some b)
  assume "n \<in> set (result_names k (store r (execute t w u)))"
  with Some show ?thesis by (simp add: execute_def)
qed

lemma result_names_process:
  "n \<in> set (result_names k (process_results r (map (execute t w) tasks)))
   \<Longrightarrow> n \<in> set (result_names k r) \<or> (\<exists>cfg. task_of k n cfg \<in> set tasks)"
  unfolding process_results_def
proof (induction tasks arbitrary: r)
  case Nil
  then show ?case by simp
next
  case (Cons u tasks)
  from Cons.prems have "n \<in> set (result_names k (foldl store (store r (execute t w u))
      (map (execute t w) tasks)))"
    by simp
  from Cons.IH [OF this] result_names_store [of n k r t w u]
  show ?case by auto
qed

lemma result_names_generate:
  "generate_combinations r = Inr r' \<Longrightarrow> result_names k r' = result_names k r"
  by (cases k) (auto simp: generate_combinations_def split: sum.splits)


lemma run_Inr:
  assumes "run t w = Inr r'"
  shows "generate_combinations
           (process_results (self_results t) (map (execute t w) (all_tasks t))) = Inr r'"
  using assms by (auto simp: run_def gather_def split: sum.splits option.splits)

lemma timeout_report_Inr:
  "timeout_report t = Inr r' \<Longrightarrow> generate_combinations (self_results t) = Inr r'"
  by (auto simp: timeout_report_def split: sum.splits)

text \<open>
  C4, as amended. A backend whose entry in its section fails the credential test that
  \<^verbatim>\<open>run\<close> applies to its kind (the token fields for synthesis and recognition,
  \<^verbatim>\<open>api_key\<close> for a generation backend, \<^verbatim>\<open>bot_id\<close> and \<^verbatim>\<open>user_id\<close> for
  \<^verbatim>\<open>CozeLLM\<close>) gets no unit of work, and its name is in no result dictionary of the
  report, with or without a timeout: it is neither an error nor part of any statistics.
\<close>

theorem placeholder_backend_is_skipped:
  assumes s: "section_of k (self_config t) = Some entries"
    and d: "distinct (map fst entries)"
    and m: "(n, cfg) \<in> set entries"
    and q: "disqualified k n cfg"
    and i: "n \<notin> set (result_names k (self_results t))"
  shows "(\<forall>cfg'. task_of k n cfg' \<notin> set (all_tasks t))
    \<and> (\<forall>r'. run t w = Inr r' \<longrightarrow> n \<notin> set (result_names k r'))
    \<and> (\<forall>r' timeout_seconds.
          run_with_timeout t w timeout_seconds = Inr r' \<longrightarrow> n \<notin> set (result_names k r'))"
proof -
  have 1: "task_of k n cfg' \<notin> set (all_tasks t)" for cfg'
    using s d m q by (rule skipped_entry)
  have 2: "n \<notin> set (result_names k r')" if "run t w = Inr r'" for r'
  proof -
    from run_Inr [OF that] have "result_names k r'
        = result_names k (process_results (self_results t) (map (execute t w) (all_tasks t)))"
      by (rule result_names_generate)
    then show ?thesis using result_names_process [of n k "self_results t" t w "all_tasks t"] i 1
      by auto
  qed
  have 3: "n \<notin> set (result_names k r')"
    if "run_with_timeout t w timeout_seconds = Inr r'" for r' timeout_seconds
  proof (cases "run_finished_after t w < timeout_seconds")
    case True
    with that have "run t w = Inr r'" by (simp add: run_with_timeout_def)
    then show ?thesis by (rule 2)
  next
    case False
    with that have "timeout_report t = Inr r'"
      by (simp add: run_with_timeout_def)
    then have "generate_combinations (self_results t) = Inr r'"
      by (rule timeout_report_Inr)
    then show ?thesis using i by (simp add: result_names_generate)
  qed
  show ?thesis using 1 2 3 by blast
qed

lemma placeholder_run:
  "run placeholder_tester budget_world
     = Inr (initial_results\<lparr>results_tts := [(''EdgeTTS'', steady_result ''EdgeTTS'')]\<rparr>)"
proof -
  have l: "execute placeholder_tester budget_world (LlmTask n cfg) = LlmOutcome (llm_error n)"
    for n cfg
    by (simp add: execute_def test_llm_performance_def llm_probe_def budget_world_def
        silent_llm_def)
  have e: "execute placeholder_tester budget_world (TtsTask ''EdgeTTS'' no_credentials)
      = TtsOutcome (steady_result ''EdgeTTS'')"
    by (simp add: execute_def placeholder_tester_def budget_world_def steady_probe)
  have g: "gather placeholder_tester budget_world (all_tasks placeholder_tester)
      = Inr [LlmOutcome (llm_error ''ChatGLMLLM''), LlmOutcome (llm_error ''CozeLLM''),
             TtsOutcome (steady_result ''EdgeTTS'')]"
    by (simp add: gather_def placeholder_tasks l e)
  have "process_results initial_results
          [LlmOutcome (llm_error ''ChatGLMLLM''), LlmOutcome (llm_error ''CozeLLM''),
           TtsOutcome (steady_result ''EdgeTTS'')]
        = initial_results\<lparr>results_tts := [(''EdgeTTS'', steady_result ''EdgeTTS'')]\<rparr>"
    by (simp add: process_results_def errors_llm_error)
      (simp add: steady_result_def initial_results_def)
  moreover have "self_results placeholder_tester = initial_results"
    by (simp add: placeholder_tester_def)
  ultimately show ?thesis
    by (simp add: run_def g generate_tts_only)
qed

theorem placeholder_backend_is_skipped_witness:
  "disqualified Synthesis ''DoubaoTTS'' token_placeholder
   \<and> (\<forall>cfg'. TtsTask ''DoubaoTTS'' cfg' \<notin> set (all_tasks placeholder_tester))
   \<and> run placeholder_tester budget_world
       = Inr (initial_results\<lparr>results_tts := [(''EdgeTTS'', steady_result ''EdgeTTS'')]\<rparr>)
   \<and> ''DoubaoTTS'' \<notin> set (result_names Synthesis
         (initial_results\<lparr>results_tts := [(''EdgeTTS'', steady_result ''EdgeTTS'')]\<rparr>))"
proof -
  have s: "section_of Synthesis (self_config placeholder_tester)
      = Some [(''EdgeTTS'', no_credentials), (''DoubaoTTS'', token_placeholder)]"
    by (simp add: placeholder_tester_def)
  have d: "distinct (map fst [(''EdgeTTS'', no_credentials), (''DoubaoTTS'', token_placeholder)])"
    by simp
  have m: "(''DoubaoTTS'', token_placeholder)
      \<in> set [(''EdgeTTS'', no_credentials), (''DoubaoTTS'', token_placeholder)]"
    by simp
  have q: "disqualified Synthesis ''DoubaoTTS'' token_placeholder"
    by (simp add: placeholder_flags)
  have i: "''DoubaoTTS'' \<notin> set (result_names Synthesis (self_results placeholder_tester))"
    by (simp add: placeholder_tester_def initial_results_def)
  note T = placeholder_backend_is_skipped [OF s d m q i, of budget_world]
  have 1: "\<forall>cfg'. TtsTask ''DoubaoTTS'' cfg' \<notin> set (all_tasks placeholder_tester)"
    using T by simp
  have 2: "''DoubaoTTS'' \<notin> set (result_names Synthesis
         (initial_results\<lparr>results_tts := [(''EdgeTTS'', steady_result ''EdgeTTS'')]\<rparr>))"
    using T placeholder_run by blast
  show ?thesis using q 1 placeholder_run 2 by blast
qed

end
